theory Spec2Isabelle
  imports Main "HOL-Library.AList"
begin

section \<open>The broker of \<^verbatim>\<open>src/index.js\<close>\<close>

text \<open>
  The broker is one JavaScript object whose methods mutate its fields and call out to
  collaborators (the connection state machine, the topology, the postal channels, timers,
  the console). The embedding passes the broker explicitly: every method takes the state
  and returns its result together with the new state. What a method does to a
  collaborator is appended to the field \<open>trace\<close>, in program order. A method that
  throws returns \<open>Inl\<close> of the error, with the state as it was when the exception
  left the method (JavaScript does not roll back).

  JavaScript objects used as dictionaries (\<open>this.connections\<close>,
  \<open>this.configurations\<close>, \<open>serializers\<close>) are association lists of their own
  properties in the order in which JavaScript enumerates them; \<open>js_get\<close> reads them as
  \<open>object[key]\<close> does, members inherited from \<open>Object.prototype\<close> included, and
  \<open>js_set\<close> writes them as \<open>object[key] = value\<close> does. Where the source reads
  through the entry (\<open>this.connections[name].channels\<close>) or calls a method of it, an
  inherited member throws a \<open>TypeError\<close> just as a missing entry does, and the model
  reads the own properties with \<open>map_of\<close>. Objects whose properties the broker reads
  by fixed names and never enumerates (options, headers) are plain association lists.
\<close>

subsection \<open>Values and options\<close>

datatype jsval =
    JUndefined | JNull | JBool bool | JNum int | JStr string
  | JArr "jsval list" | JObj "(string \<times> jsval) list"

text \<open>What \<open>if (v)\<close>, \<open>!v\<close> and \<open>v || d\<close> test.\<close>

fun truthy :: "jsval \<Rightarrow> bool" where
  "truthy JUndefined = False"
| "truthy JNull = False"
| "truthy (JBool b) = b"
| "truthy (JNum n) = (n \<noteq> 0)"
| "truthy (JStr s) = (s \<noteq> [])"
| "truthy (JArr vs) = True"
| "truthy (JObj kvs) = True"

text \<open>
  \<open>x || d\<close> on an optional string and on an optional number: \<open>None\<close> is
  \<open>undefined\<close>; the empty string and \<open>0\<close> are falsy as well.
\<close>

definition or_str :: "string option \<Rightarrow> string \<Rightarrow> string" where
  "or_str x d = (case x of None \<Rightarrow> d | Some s \<Rightarrow> if s = [] then d else s)"

definition or_num :: "int option \<Rightarrow> int \<Rightarrow> int" where
  "or_num x d = (case x of None \<Rightarrow> d | Some n \<Rightarrow> if n = 0 then d else n)"

subsection \<open>Objects as dictionaries\<close>

text \<open>
  An object literal \<open>{}\<close> inherits the members of \<open>Object.prototype\<close>: reading one
  of these names from an object that has no own property of that name gives the inherited
  function (for \<open>__proto__\<close>, the prototype object), which is truthy.
\<close>

definition object_prototype_members :: "string list" where
  "object_prototype_members =
     [''constructor'', ''toString'', ''toLocaleString'', ''valueOf'', ''hasOwnProperty'',
      ''isPrototypeOf'', ''propertyIsEnumerable'', ''__proto__'', ''__defineGetter__'',
      ''__defineSetter__'', ''__lookupGetter__'', ''__lookupSetter__'']"

datatype 'a property = Own 'a | Inherited | Missing

definition js_get :: "(string \<times> 'a) list \<Rightarrow> string \<Rightarrow> 'a property" where
  "js_get obj k =
     (case map_of obj k of
        Some v \<Rightarrow> Own v
      | None \<Rightarrow> if k \<in> set object_prototype_members then Inherited else Missing)"

text \<open>
  The own properties of an object are enumerated with the array indices first, in ascending
  order, and then the other names in the order in which they were created. An array index
  is the decimal notation, without leading zeros, of a number below \<open>2^32 - 1\<close>. Keys
  are given as lists of character codes.
\<close>

definition digit :: "nat \<Rightarrow> bool" where
  "digit c = (48 \<le> c \<and> c \<le> 57)"

definition read_nat :: "nat list \<Rightarrow> nat" where
  "read_nat ds = foldl (\<lambda>a d. 10 * a + (d - 48)) 0 ds"

definition array_index :: "nat list \<Rightarrow> nat option" where
  "array_index k =
     (case k of
        [] \<Rightarrow> None
      | c # cs \<Rightarrow>
          if list_all digit k \<and> (c \<noteq> 48 \<or> cs = []) \<and> read_nat k < 4294967295
          then Some (read_nat k) else None)"

fun insert_index ::
  "('k \<Rightarrow> nat option) \<Rightarrow> nat \<Rightarrow> 'k \<Rightarrow> 'v \<Rightarrow> ('k \<times> 'v) list \<Rightarrow> ('k \<times> 'v) list" where
  "insert_index idx n k v [] = [(k, v)]"
| "insert_index idx n k v ((k', v') # al) =
     (case idx k' of
        Some m \<Rightarrow>
          if m < n then (k', v') # insert_index idx n k v al else (k, v) # (k', v') # al
      | None \<Rightarrow> (k, v) # (k', v') # al)"

text \<open>
  Defining the property \<open>k\<close>: an existing one keeps its place; a new array index goes
  after the smaller indices; any other new name goes last.
\<close>

definition set_property ::
  "('k \<Rightarrow> nat option) \<Rightarrow> 'k \<Rightarrow> 'v \<Rightarrow> ('k \<times> 'v) list \<Rightarrow> ('k \<times> 'v) list" where
  "set_property idx k v al =
     (if map_of al k \<noteq> None then AList.update k v al
      else case idx k of
             Some n \<Rightarrow> insert_index idx n k v al
           | None \<Rightarrow> al @ [(k, v)])"

text \<open>
  \<open>object[key] = value\<close>. An assignment to \<open>__proto__\<close> sets the prototype and
  creates no property; the model does not follow the new prototype.
\<close>

definition js_set :: "string \<Rightarrow> 'a \<Rightarrow> (string \<times> 'a) list \<Rightarrow> (string \<times> 'a) list" where
  "js_set k v obj =
     (if k = ''__proto__'' then obj
      else set_property (\<lambda>key. array_index (map of_char key)) k v obj)"

subsection \<open>Connection options\<close>

text \<open>The fields of a connection's options that \<^verbatim>\<open>index.js\<close> reads or writes.\<close>

record conn_options =
  o_name :: "string option"
  o_retryLimit :: "int option"
  o_failAfter :: "int option"
  o_publishTimeout :: "int option"

definition no_options :: conn_options where
  "no_options = \<lparr>o_name = None, o_retryLimit = None, o_failAfter = None,
     o_publishTimeout = None\<rparr>"

subsection \<open>Collaborators\<close>

text \<open>
  The connection object that \<open>connectionFn(options)\<close> returns; \<^verbatim>\<open>index.js\<close> reads its
  \<open>name\<close> and calls \<open>connect\<close>, \<open>close\<close> and \<open>on\<close>.
\<close>

record connection =
  c_name :: string
  c_options :: conn_options

text \<open>A channel object of a topology (an exchange or a queue), under its composite key.\<close>

record channel =
  ch_key :: string
  ch_options :: "(string \<times> jsval) list"

text \<open>
  The topology object; \<^verbatim>\<open>index.js\<close> reads \<open>connection\<close>, \<open>name\<close>, \<open>options\<close> and
  \<open>channels\<close>. A property that may be \<open>undefined\<close> is an option.
\<close>

record topology =
  t_name :: "string option"
  t_connection :: "connection option"
  t_options :: conn_options
  t_channels :: "(string \<times> channel) list"

text \<open>
  An inbound message as the reply subscription sees it: the topic it is published under on
  the responses channel (the correlation identifier), \<open>properties.headers\<close> and the body.
\<close>

record message =
  m_correlationId :: string
  m_headers :: "(string \<times> jsval) list"
  m_body :: jsval

datatype payload = PConnection connection | PError string | PString string

datatype error = TypeError | Error string

text \<open>What a promise has settled to, if it has.\<close>

datatype outcome = Fulfilled jsval | Rejected string | Pending

datatype reply_promise = Waiting | Resolved message | Failed error

text \<open>
  One call of \<open>request\<close>: its promise, whether its subscription on the responses
  channel is still there, and the messages passed to \<open>notify\<close>.
\<close>

record pending_request =
  rq_promise :: reply_promise
  rq_subscribed :: bool
  rq_progress :: "message list"

text \<open>The third argument of \<open>startSubscription\<close>.\<close>

datatype excl = ExclUndefined | ExclBool bool | ExclString string

text \<open>What the broker does to its collaborators, in program order.\<close>

datatype effect =
    NewConnection conn_options
  | NewTopology conn_options
  | ConnOn string string
  | ConnConnect string
  | ConnClose string bool
  | TopologyReset string
  | Emit string payload
  | Warn string
  | Log string
  | SetInterval nat int
  | ClearInterval "nat option"
  | SignalAck
  | DispatchSubscribe nat string
  | CatchNack nat
  | DispatchUnsubscribe nat
  | ResponsesSubscribe string
  | ResponsesUnsubscribe string
  | PromiseResolve string message
  | PromiseNotify string message
  | QueueSubscribe string string excl
  | CreateExchange string string
  | CreateQueue string string
  | CreateBinding string string string "string list" bool
  | DeleteExchange string string
  | DeleteQueue string string
  | ExchangePublish string string "(string \<times> jsval) list"

datatype codec = JsonCodec | OctetCodec | TextCodec | CustomCodec nat

datatype strategy = NackOnUnhandled | RejectOnUnhandled | CustomOnUnhandled nat

record configuration =
  cfg_name :: "string option"
  cfg_connection :: "conn_options option"

subsection \<open>The broker state\<close>

text \<open>
  The first five fields are the ones the constructor sets; \<open>ackIntervalId\<close> is set by
  \<open>setAckInterval\<close>, and nothing in \<^verbatim>\<open>index.js\<close> sets \<open>appId\<close>. \<open>serializers\<close>,
  \<open>unhandled\<close> and \<open>customHandler\<close> are the module-level tables \<open>serializers\<close> and
  \<open>unhandledStrategies\<close> (a handler function is known by a number). \<open>timers\<close> are the interval timers that are armed, \<open>subs\<close> the
  subscriptions of the dispatch channel, \<open>requests\<close> the calls of \<open>request\<close> by
  correlation identifier, and \<open>fresh\<close> the next identifier the runtime hands out.
\<close>

record broker =
  connections :: "(string \<times> topology) list"
  hasHandles :: bool
  autoNack :: bool
  configurations :: "(string \<times> configuration) list"
  ackIntervalId :: "nat option"
  serializers :: "(string \<times> codec) list"
  appId :: jsval
  unhandled :: strategy
  customHandler :: "nat option"
  timers :: "nat list"
  subs :: "(nat \<times> string) list"
  requests :: "(string \<times> pending_request) list"
  fresh :: nat
  trace :: "effect list"

definition seeded_serializers :: "(string \<times> codec) list" where
  "seeded_serializers =
     [(''application/json'', JsonCodec),
      (''application/octet-stream'', OctetCodec),
      (''text/plain'', TextCodec)]"

definition Broker :: broker where
  "Broker = \<lparr>connections = [], hasHandles = False, autoNack = False,
     configurations = [], ackIntervalId = None, serializers = seeded_serializers,
     appId = JUndefined, unhandled = NackOnUnhandled, customHandler = None,
     timers = [], subs = [], requests = [], fresh = 0, trace = []\<rparr>"

definition do_effect :: "effect \<Rightarrow> broker \<Rightarrow> broker" where
  "do_effect e b = b\<lparr>trace := trace b @ [e]\<rparr>"

definition emit :: "string \<Rightarrow> payload \<Rightarrow> broker \<Rightarrow> broker" where
  "emit ev p b = do_effect (Emit ev p) b"

subsection \<open>The acknowledgement timer\<close>

definition batchAck :: "broker \<Rightarrow> broker" where
  "batchAck b = do_effect SignalAck b"

text \<open>\<open>clearInterval(id)\<close> disarms the timer \<open>id\<close>; with \<open>undefined\<close> it does nothing.\<close>

definition clearAckInterval :: "broker \<Rightarrow> broker" where
  "clearAckInterval b =
     do_effect (ClearInterval (ackIntervalId b))
       (b\<lparr>timers := (case ackIntervalId b of None \<Rightarrow> timers b
                       | Some i \<Rightarrow> removeAll i (timers b))\<rparr>)"

definition setAckInterval :: "int \<Rightarrow> broker \<Rightarrow> broker" where
  "setAckInterval interval b =
     (let b1 = (if ackIntervalId b \<noteq> None then clearAckInterval b else b);
          i = fresh b1
      in do_effect (SetInterval i interval)
           (b1\<lparr>ackIntervalId := Some i, timers := timers b1 @ [i], fresh := Suc i\<rparr>))"

subsection \<open>Connections\<close>

text \<open>
  The four handlers that \<open>addConnection\<close> wires on a new connection. Each closes over
  \<open>name\<close> and \<open>connection\<close>. In the last one the source reads
  \<^verbatim>\<open>this.emit( name, ".connection.unreachable" )\<close>: the event is \<open>name\<close> and the
  string is its payload.
\<close>

definition on_connected :: "string \<Rightarrow> connection \<Rightarrow> broker \<Rightarrow> broker" where
  "on_connected name connection b =
     setAckInterval 500
       (emit (c_name connection @ ''.connection.opened'') (PConnection connection)
         (emit ''connected'' (PConnection connection) b))"

definition on_closed :: "string \<Rightarrow> connection \<Rightarrow> broker \<Rightarrow> broker" where
  "on_closed name connection b =
     emit (c_name connection @ ''.connection.closed'') (PConnection connection)
       (emit ''closed'' (PConnection connection) b)"

definition on_failed :: "string \<Rightarrow> connection \<Rightarrow> string \<Rightarrow> broker \<Rightarrow> broker" where
  "on_failed name connection err b =
     emit (name @ ''.connection.failed'') (PError err)
       (emit ''failed'' (PConnection connection) b)"

definition on_unreachable :: "string \<Rightarrow> connection \<Rightarrow> broker \<Rightarrow> broker" where
  "on_unreachable name connection b =
     clearAckInterval
       (emit name (PString ''.connection.unreachable'')
         (emit ''unreachable'' (PConnection connection) b))"

text \<open>
  Modelled from the spec: \<open>connectionFn\<close> (\<^verbatim>\<open>connectionFsm.js\<close>) and \<open>topologyFn\<close>
  (\<^verbatim>\<open>topology.js\<close>) are not among the sources. The connection is identified by the name
  in its options; the topology is owned by that connection, carries the same options and
  starts with an empty registry of channels.
\<close>

definition connectionFn :: "conn_options \<Rightarrow> connection" where
  "connectionFn options = \<lparr>c_name = or_str (o_name options) [], c_options = options\<rparr>"

definition topologyFn :: "connection \<Rightarrow> conn_options \<Rightarrow> topology" where
  "topologyFn connection options =
     \<lparr>t_name = o_name options, t_connection = Some connection, t_options = options,
      t_channels = []\<rparr>"

text \<open>The first five statements of \<open>addConnection\<close>: the options after defaulting.\<close>


definition connection_name :: "conn_options option \<Rightarrow> string" where
  "connection_name options =
     (case options of Some opts \<Rightarrow> or_str (o_name opts) ''default'' | None \<Rightarrow> ''default'')"

definition defaulted :: "conn_options option \<Rightarrow> conn_options" where
  "defaulted options =
     (let name = connection_name options;
          opts = (case options of Some r \<Rightarrow> r | None \<Rightarrow> no_options)
      in opts\<lparr>o_name := Some name,
              o_retryLimit := Some (or_num (o_retryLimit opts) 3),
              o_failAfter := Some (or_num (o_failAfter opts) 60)\<rparr>)"

text \<open>
  \<open>!this.connections[ name ]\<close> is false for an own entry and for an inherited member.
  In the second case the \<open>else\<close> branch reads \<open>connection.connection\<close> from the
  inherited function, which is \<open>undefined\<close>, and calling \<open>connect\<close> on it throws.
\<close>

definition addConnection :: "conn_options option \<Rightarrow> broker \<Rightarrow> (error + topology) \<times> broker" where
  "addConnection options b =
     (let name = connection_name options;
          opts = defaulted options
      in case js_get (connections b) name of
           Missing \<Rightarrow>
             (let connection = connectionFn opts;
                  topology = topologyFn connection opts;
                  b1 = do_effect (NewTopology opts) (do_effect (NewConnection opts) b);
                  b2 = do_effect (ConnOn name ''connected'') b1;
                  b3 = do_effect (ConnOn name ''closed'') b2;
                  b4 = do_effect (ConnOn name ''failed'') b3;
                  b5 = do_effect (ConnOn name ''unreachable'') b4
              in (Inr topology,
                  b5\<lparr>connections := js_set name topology (connections b5)\<rparr>))
         | Own existing \<Rightarrow>
             (case t_connection existing of
                None \<Rightarrow> (Inl TypeError, b)
              | Some c \<Rightarrow> (Inr existing, do_effect (ConnConnect (c_name c)) b))
         | Inherited \<Rightarrow> (Inl TypeError, b))"

subsection \<open>Topology\<close>

text \<open>
  Modelled from the spec: the methods of the topology (\<^verbatim>\<open>topology.js\<close>) are not among the
  sources. \<open>createExchange\<close> and \<open>createQueue\<close> register a channel object under the
  composite key \<open>exchange:<name>\<close> or \<open>queue:<name>\<close>, \<open>deleteExchange\<close> and
  \<open>deleteQueue\<close> remove the local entry, \<open>reset\<close> clears the local registry only, and
  \<open>createBinding\<close> registers no channel. Each takes the key of the topology in
  \<open>this.connections\<close>, which the caller has looked up.
\<close>

definition channel_name :: "(string \<times> jsval) list \<Rightarrow> string" where
  "channel_name options =
     (case map_of options ''name'' of Some (JStr s) \<Rightarrow> s | _ \<Rightarrow> ''undefined'')"

definition on_topology :: "string \<Rightarrow> (topology \<Rightarrow> topology) \<Rightarrow> broker \<Rightarrow> broker" where
  "on_topology key f b = b\<lparr>connections := AList.map_entry key f (connections b)\<rparr>"

definition register_channel :: "string \<Rightarrow> (string \<times> jsval) list \<Rightarrow> topology \<Rightarrow> topology" where
  "register_channel k options t =
     t\<lparr>t_channels := AList.update k \<lparr>ch_key = k, ch_options = options\<rparr> (t_channels t)\<rparr>"

definition createExchange :: "string \<Rightarrow> (string \<times> jsval) list \<Rightarrow> broker \<Rightarrow> broker" where
  "createExchange key options b =
     (let k = ''exchange:'' @ channel_name options
      in do_effect (CreateExchange key k) (on_topology key (register_channel k options) b))"

definition createQueue :: "string \<Rightarrow> (string \<times> jsval) list \<Rightarrow> broker \<Rightarrow> broker" where
  "createQueue key options b =
     (let k = ''queue:'' @ channel_name options
      in do_effect (CreateQueue key k) (on_topology key (register_channel k options) b))"

definition createBinding :: "string \<Rightarrow> string \<Rightarrow> string \<Rightarrow> string list \<Rightarrow> bool \<Rightarrow> broker \<Rightarrow> broker" where
  "createBinding key source target keys queue b =
     do_effect (CreateBinding key source target keys queue) b"

definition topology_deleteExchange :: "string \<Rightarrow> string \<Rightarrow> broker \<Rightarrow> broker" where
  "topology_deleteExchange key name b =
     (let k = ''exchange:'' @ name
      in do_effect (DeleteExchange key k)
           (on_topology key (\<lambda>t. t\<lparr>t_channels := AList.delete k (t_channels t)\<rparr>) b))"

definition topology_deleteQueue :: "string \<Rightarrow> string \<Rightarrow> broker \<Rightarrow> broker" where
  "topology_deleteQueue key name b =
     (let k = ''queue:'' @ name
      in do_effect (DeleteQueue key k)
           (on_topology key (\<lambda>t. t\<lparr>t_channels := AList.delete k (t_channels t)\<rparr>) b))"

definition topology_reset :: "string \<Rightarrow> broker \<Rightarrow> broker" where
  "topology_reset key b =
     do_effect (TopologyReset key) (on_topology key (\<lambda>t. t\<lparr>t_channels := []\<rparr>) b)"

subsection \<open>Declaring exchanges, queues and bindings\<close>

text \<open>The first argument of \<open>addExchange\<close>: a name, or an options object.\<close>

datatype exchange_arg = ExchangeName string | ExchangeOptions "(string \<times> jsval) list"

text \<open>
  With an options object the source overwrites \<open>connectionName\<close> by the second argument,
  after the default was applied. An \<open>undefined\<close> key finds no connection.
\<close>

definition addExchange ::
  "exchange_arg \<Rightarrow> string option \<Rightarrow> (string \<times> jsval) list option \<Rightarrow> string option \<Rightarrow>
   broker \<Rightarrow> (error + unit) \<times> broker" where
  "addExchange name type options connectionName b =
     (case name of
        ExchangeOptions obj \<Rightarrow>
          (case type of
             None \<Rightarrow> (Inl TypeError, b)
           | Some key \<Rightarrow>
               (case map_of (connections b) key of
                  None \<Rightarrow> (Inl TypeError, b)
                | Some t \<Rightarrow> (Inr (), createExchange key obj b)))
      | ExchangeName n \<Rightarrow>
          (case options of
             None \<Rightarrow> (Inl TypeError, b)
           | Some obj \<Rightarrow>
               (let key = or_str connectionName ''default'';
                    obj1 = AList.update ''name'' (JStr n) obj;
                    obj2 = AList.update ''type''
                             (case type of None \<Rightarrow> JUndefined | Some ty \<Rightarrow> JStr ty) obj1
                in case map_of (connections b) key of
                     None \<Rightarrow> (Inl TypeError, b)
                   | Some t \<Rightarrow> (Inr (), createExchange key obj2 b))))"

definition no_handlers_warning :: "string \<Rightarrow> string" where
  "no_handlers_warning name =
     ''Subscription to '' @ [CHR 0x27] @ name @ [CHR 0x27] @
     '' was started without any handlers. This will result in lost messages!''"

definition prop_truthy :: "(string \<times> jsval) list \<Rightarrow> string \<Rightarrow> bool" where
  "prop_truthy obj k = (case map_of obj k of None \<Rightarrow> False | Some v \<Rightarrow> truthy v)"

definition addQueue ::
  "string \<Rightarrow> (string \<times> jsval) list option \<Rightarrow> string option \<Rightarrow> broker \<Rightarrow>
   (error + unit) \<times> broker" where
  "addQueue name options connectionName b =
     (let key = or_str connectionName ''default''
      in case options of
           None \<Rightarrow> (Inl TypeError, b)
         | Some obj \<Rightarrow>
             (let obj1 = AList.update ''name'' (JStr name) obj;
                  b1 = (if prop_truthy obj1 ''subscribe'' \<and> \<not> hasHandles b
                        then do_effect (Warn (no_handlers_warning name)) b else b)
              in case map_of (connections b1) key of
                   None \<Rightarrow> (Inl TypeError, b1)
                 | Some t \<Rightarrow> (Inr (), createQueue key obj1 b1)))"

definition addSerializer :: "string \<Rightarrow> codec \<Rightarrow> broker \<Rightarrow> broker" where
  "addSerializer contentType serializer b =
     b\<lparr>serializers := js_set contentType serializer (serializers b)\<rparr>"

definition bindExchange ::
  "string \<Rightarrow> string \<Rightarrow> string list \<Rightarrow> string option \<Rightarrow> broker \<Rightarrow> (error + unit) \<times> broker" where
  "bindExchange source target keys connectionName b =
     (let key = or_str connectionName ''default''
      in case map_of (connections b) key of
           None \<Rightarrow> (Inl TypeError, b)
         | Some t \<Rightarrow> (Inr (), createBinding key source target keys False b))"

definition bindQueue ::
  "string \<Rightarrow> string \<Rightarrow> string list \<Rightarrow> string option \<Rightarrow> broker \<Rightarrow> (error + unit) \<times> broker" where
  "bindQueue source target keys connectionName b =
     (let key = or_str connectionName ''default''
      in case map_of (connections b) key of
           None \<Rightarrow> (Inl TypeError, b)
         | Some t \<Rightarrow> (Inr (), createBinding key source target keys True b))"

definition deleteExchange :: "string \<Rightarrow> string option \<Rightarrow> broker \<Rightarrow> (error + unit) \<times> broker" where
  "deleteExchange name connectionName b =
     (let key = or_str connectionName ''default''
      in case map_of (connections b) key of
           None \<Rightarrow> (Inl TypeError, b)
         | Some t \<Rightarrow> (Inr (), topology_deleteExchange key name b))"

definition deleteQueue :: "string \<Rightarrow> string option \<Rightarrow> broker \<Rightarrow> (error + unit) \<times> broker" where
  "deleteQueue name connectionName b =
     (let key = or_str connectionName ''default''
      in case map_of (connections b) key of
           None \<Rightarrow> (Inl TypeError, b)
         | Some t \<Rightarrow> (Inr (), topology_deleteQueue key name b))"

text \<open>\<open>getExchange\<close> and \<open>getQueue\<close>: \<open>Inr None\<close> is \<open>undefined\<close>.\<close>

definition getExchange :: "string \<Rightarrow> string option \<Rightarrow> broker \<Rightarrow> error + channel option" where
  "getExchange name connectionName b =
     (case map_of (connections b) (or_str connectionName ''default'') of
        None \<Rightarrow> Inl TypeError
      | Some t \<Rightarrow> Inr (map_of (t_channels t) (''exchange:'' @ name)))"

definition getQueue :: "string \<Rightarrow> string option \<Rightarrow> broker \<Rightarrow> error + channel option" where
  "getQueue name connectionName b =
     (case map_of (connections b) (or_str connectionName ''default'') of
        None \<Rightarrow> Inl TypeError
      | Some t \<Rightarrow> Inr (map_of (t_channels t) (''queue:'' @ name)))"

subsection \<open>Closing\<close>

text \<open>
  \<open>close\<close> and \<open>closeAll\<close> return promises. What the promise of a connection's own
  \<open>close(reset)\<close> settles to is the connection's business: the parameter \<open>cc\<close> gives it,
  by connection name. For a missing entry, reading \<open>.connection\<close> throws; an inherited
  member has no property \<open>connection\<close>, so the \<open>else\<close> branch is taken.
\<close>

definition close ::
  "(string \<Rightarrow> bool \<Rightarrow> outcome) \<Rightarrow> string option \<Rightarrow> bool \<Rightarrow> broker \<Rightarrow> (error + outcome) \<times> broker" where
  "close cc connectionName reset b =
     (let key = or_str connectionName ''default''
      in case js_get (connections b) key of
           Missing \<Rightarrow> (Inl TypeError, b)
         | Inherited \<Rightarrow> (Inr (Fulfilled (JBool True)), b)
         | Own t \<Rightarrow>
             (case t_connection t of
                Some connection \<Rightarrow>
                  (let b1 = (if reset then topology_reset key b else b)
                   in (Inr (cc (c_name connection) reset),
                       do_effect (ConnClose (c_name connection) reset) b1))
              | None \<Rightarrow> (Inr (Fulfilled (JBool True)), b)))"

text \<open>
  \<open>_.map\<close> calls \<open>close\<close> for the value of every key in turn; an exception leaves the
  loop.
\<close>

fun close_each ::
  "(string \<Rightarrow> bool \<Rightarrow> outcome) \<Rightarrow> bool \<Rightarrow> topology list \<Rightarrow> broker \<Rightarrow>
   (error + outcome list) \<times> broker" where
  "close_each cc reset [] b = (Inr [], b)"
| "close_each cc reset (t # ts) b =
     (case close cc (t_name t) reset b of
        (Inl e, b1) \<Rightarrow> (Inl e, b1)
      | (Inr p, b1) \<Rightarrow>
          (case close_each cc reset ts b1 of
             (Inl e, b2) \<Rightarrow> (Inl e, b2)
           | (Inr ps, b2) \<Rightarrow> (Inr (p # ps), b2)))"

text \<open>
  \<open>when.all\<close> of the library \<^verbatim>\<open>when\<close>: the promise rejects as soon as one input rejects,
  with that input's reason; it fulfils with the array of all values once every input has
  fulfilled. The inputs are given as what they settle to; of several rejections the model
  takes the first in array order.
\<close>

definition when_all :: "outcome list \<Rightarrow> outcome" where
  "when_all ps =
     (case [e. Rejected e \<leftarrow> ps] of
        e # _ \<Rightarrow> Rejected e
      | [] \<Rightarrow> if Pending \<in> set ps then Pending
              else Fulfilled (JArr [v. Fulfilled v \<leftarrow> ps]))"

definition closeAll ::
  "(string \<Rightarrow> bool \<Rightarrow> outcome) \<Rightarrow> bool \<Rightarrow> broker \<Rightarrow> (error + outcome) \<times> broker" where
  "closeAll cc reset b =
     (case close_each cc reset (map snd (connections b)) b of
        (Inl e, b1) \<Rightarrow> (Inl e, b1)
      | (Inr closers, b1) \<Rightarrow> (Inr (when_all closers), b1))"

text \<open>\<open>then\<close> runs its callback when the promise has fulfilled.\<close>

definition shutdown :: "(string \<Rightarrow> bool \<Rightarrow> outcome) \<Rightarrow> broker \<Rightarrow> (error + outcome) \<times> broker" where
  "shutdown cc b =
     (case closeAll cc True b of
        (Inl e, b1) \<Rightarrow> (Inl e, b1)
      | (Inr (Fulfilled v), b1) \<Rightarrow> (Inr (Fulfilled JUndefined), clearAckInterval b1)
      | (Inr p, b1) \<Rightarrow> (Inr p, b1))"

subsection \<open>Handlers\<close>

text \<open>\<open>queueName.replace( /[.]/g, "-" )\<close>\<close>

definition sanitize :: "string \<Rightarrow> string" where
  "sanitize queueName = map (\<lambda>c. if c = CHR ''.'' then CHR ''-'' else c) queueName"

text \<open>\<open>Array.prototype.join\<close>\<close>

fun join :: "string \<Rightarrow> string list \<Rightarrow> string" where
  "join sep [] = []"
| "join sep [x] = x"
| "join sep (x # y # ys) = x @ sep @ join sep (y # ys)"

text \<open>\<open>_.isEmpty\<close> on a message type that is a string or \<open>undefined\<close>.\<close>

definition isEmpty :: "string option \<Rightarrow> bool" where
  "isEmpty messageType = (case messageType of None \<Rightarrow> True | Some s \<Rightarrow> s = [])"

text \<open>
  The topic \<open>handle\<close> subscribes to. \<open>queueName\<close> is \<open>Some\<close> when the third argument
  is a string (\<open>_.isString\<close>); anything else is taken as the context.
\<close>

definition topic_parts :: "string option \<Rightarrow> string option \<Rightarrow> string list" where
  "topic_parts messageType queueName =
     (let prefix = (case queueName of Some q \<Rightarrow> sanitize q | None \<Rightarrow> ''#'');
          parts = [prefix]
      in if \<not> isEmpty messageType
         then parts @ (case messageType of Some s \<Rightarrow> [s] | None \<Rightarrow> [])
         else parts)"

definition handle_target :: "string option \<Rightarrow> string option \<Rightarrow> string" where
  "handle_target messageType queueName = join ''.'' (topic_parts messageType queueName)"

text \<open>
  \<open>handle\<close> returns the subscription, known by a number. The handler and its context are
  the subscriber's business and are left out.
\<close>

definition handle :: "string option \<Rightarrow> string option \<Rightarrow> broker \<Rightarrow> nat \<times> broker" where
  "handle messageType queueName b =
     (let b1 = b\<lparr>hasHandles := True\<rparr>;
          target = handle_target messageType queueName;
          i = fresh b1;
          b2 = do_effect (DispatchSubscribe i target)
                 (b1\<lparr>subs := subs b1 @ [(i, target)], fresh := Suc i\<rparr>);
          b3 = (if autoNack b2 then do_effect (CatchNack i) b2 else b2)
      in (i, b3))"

text \<open>\<open>subscription.remove()\<close>, that is \<open>subscription.unsubscribe()\<close>.\<close>

definition remove :: "nat \<Rightarrow> broker \<Rightarrow> broker" where
  "remove i b =
     do_effect (DispatchUnsubscribe i) (b\<lparr>subs := filter (\<lambda>(j, t). j \<noteq> i) (subs b)\<rparr>)"



definition ignoreHandlerErrors :: "broker \<Rightarrow> broker" where
  "ignoreHandlerErrors b = b\<lparr>autoNack := False\<rparr>"

definition nackOnError :: "broker \<Rightarrow> broker" where
  "nackOnError b = b\<lparr>autoNack := True\<rparr>"

definition nackUnhandled :: "broker \<Rightarrow> broker" where
  "nackUnhandled b = b\<lparr>unhandled := NackOnUnhandled\<rparr>"

definition onUnhandled :: "nat \<Rightarrow> broker \<Rightarrow> broker" where
  "onUnhandled handler b =
     b\<lparr>customHandler := Some handler, unhandled := CustomOnUnhandled handler\<rparr>"

definition rejectUnhandled :: "broker \<Rightarrow> broker" where
  "rejectUnhandled b = b\<lparr>unhandled := RejectOnUnhandled\<rparr>"

subsection \<open>Publishing and requests\<close>

text \<open>A property that is a string, if it is there; \<open>None\<close> otherwise.\<close>

definition str_prop :: "(string \<times> jsval) list \<Rightarrow> string \<Rightarrow> string option" where
  "str_prop obj k = (case map_of obj k of Some (JStr s) \<Rightarrow> Some s | _ \<Rightarrow> None)"

definition opt_str :: "string option \<Rightarrow> jsval" where
  "opt_str x = (case x of None \<Rightarrow> JUndefined | Some s \<Rightarrow> JStr s)"

definition opt_num :: "int option \<Rightarrow> jsval" where
  "opt_num x = (case x of None \<Rightarrow> JUndefined | Some n \<Rightarrow> JNum n)"

text \<open>
  The two ways of calling \<open>publish\<close>: with an options object in the place of the type
  (followed by the connection name), or with the type, the message, the routing key, the
  correlation identifier, the connection name and the sequence number.
\<close>

datatype publish_args =
    WithOptions "(string \<times> jsval) list" "string option"
  | WithFields "string option" jsval "string option" "string option" "string option" "int option"

text \<open>
  \<open>connectionName || message.connectionName || "default"\<close>: the property is read only
  when the argument is falsy, and reading it from \<open>undefined\<close> or \<open>null\<close> throws.
\<close>

definition fields_connectionName :: "string option \<Rightarrow> jsval \<Rightarrow> error + string" where
  "fields_connectionName connectionName message =
     (if or_str connectionName [] \<noteq> [] then Inr (or_str connectionName [])
      else case message of
             JUndefined \<Rightarrow> Inl TypeError
           | JNull \<Rightarrow> Inl TypeError
           | JObj obj \<Rightarrow> Inr (or_str (str_prop obj ''connectionName'') ''default'')
           | _ \<Rightarrow> Inr ''default'')"

text \<open>
  The first half of \<open>publish\<close>: the connection name and the options. \<open>timestamp\<close> is
  what \<open>Date.now()\<close> returned.
\<close>

definition publish_options ::
  "int \<Rightarrow> publish_args \<Rightarrow> broker \<Rightarrow> error + string \<times> (string \<times> jsval) list" where
  "publish_options timestamp args b =
     (case args of
        WithOptions options message \<Rightarrow>
          Inr (or_str message (or_str (str_prop options ''connectionName'') ''default''),
               options)
      | WithFields type message routingKey correlationId connectionName sequenceNo \<Rightarrow>
          (case fields_connectionName connectionName message of
             Inl e \<Rightarrow> Inl e
           | Inr name \<Rightarrow>
               Inr (name,
                    [(''appId'', appId b), (''type'', opt_str type), (''body'', message),
                     (''routingKey'', opt_str routingKey),
                     (''correlationId'', opt_str correlationId),
                     (''sequenceNo'', opt_num sequenceNo),
                     (''timestamp'', JNum timestamp), (''headers'', JObj []),
                     (''connectionName'', JStr name)])))"

definition publish ::
  "int \<Rightarrow> string \<Rightarrow> publish_args \<Rightarrow> broker \<Rightarrow> (error + unit) \<times> broker" where
  "publish timestamp exchangeName args b =
     (case publish_options timestamp args b of
        Inl e \<Rightarrow> (Inl e, b)
      | Inr (connectionName, options) \<Rightarrow>
          (case map_of (connections b) connectionName of
             None \<Rightarrow> (Inl TypeError, b)
           | Some t \<Rightarrow>
               (let connection = t_options t;
                    options1 =
                      (if or_num (o_publishTimeout connection) 0 \<noteq> 0
                       then AList.update ''connectionPublishTimeout''
                              (opt_num (o_publishTimeout connection)) options
                       else options)
                in case getExchange exchangeName (Some connectionName) b of
                     Inl e \<Rightarrow> (Inl e, b)
                   | Inr None \<Rightarrow> (Inl TypeError, b)
                   | Inr (Some exchange) \<Rightarrow>
                       (Inr (),
                        do_effect (ExchangePublish connectionName (ch_key exchange) options1)
                          b))))"

text \<open>
  The promise of a request, by its correlation identifier. A promise settles once:
  \<open>resolve\<close> and \<open>reject\<close> on a settled promise do nothing, and so does \<open>notify\<close>. The
  trace records a resolution or a notification when it takes place.
\<close>

definition on_request :: "string \<Rightarrow> (pending_request \<Rightarrow> pending_request) \<Rightarrow> broker \<Rightarrow> broker" where
  "on_request requestId f b = b\<lparr>requests := AList.map_entry requestId f (requests b)\<rparr>"

definition waiting :: "string \<Rightarrow> broker \<Rightarrow> bool" where
  "waiting requestId b =
     (case map_of (requests b) requestId of
        None \<Rightarrow> False
      | Some r \<Rightarrow> rq_promise r = Waiting)"

definition resolve :: "string \<Rightarrow> message \<Rightarrow> broker \<Rightarrow> broker" where
  "resolve requestId message b =
     (if waiting requestId b
      then do_effect (PromiseResolve requestId message)
             (on_request requestId (\<lambda>r. r\<lparr>rq_promise := Resolved message\<rparr>) b)
      else b)"

definition reject :: "string \<Rightarrow> error \<Rightarrow> broker \<Rightarrow> broker" where
  "reject requestId e b =
     (if waiting requestId b
      then on_request requestId (\<lambda>r. r\<lparr>rq_promise := Failed e\<rparr>) b
      else b)"

definition notify :: "string \<Rightarrow> message \<Rightarrow> broker \<Rightarrow> broker" where
  "notify requestId message b =
     (if waiting requestId b
      then do_effect (PromiseNotify requestId message)
             (on_request requestId (\<lambda>r. r\<lparr>rq_progress := rq_progress r @ [message]\<rparr>) b)
      else b)"

definition unsubscribe :: "string \<Rightarrow> broker \<Rightarrow> broker" where
  "unsubscribe requestId b =
     do_effect (ResponsesUnsubscribe requestId)
       (on_request requestId (\<lambda>r. r\<lparr>rq_subscribed := False\<rparr>) b)"

text \<open>The callback that \<open>request\<close> subscribes on the responses channel.\<close>

definition on_response :: "string \<Rightarrow> message \<Rightarrow> broker \<Rightarrow> broker" where
  "on_response requestId message b =
     (if prop_truthy (m_headers message) ''sequence_end''
      then unsubscribe requestId (resolve requestId message b)
      else notify requestId message b)"

text \<open>
  \<open>requestId\<close> is what \<open>uuid.v1()\<close> returned. The function passed to \<open>when.promise\<close>
  subscribes and publishes; an exception in it rejects the promise. The promise that
  \<open>request\<close> returns is the entry of \<open>requests\<close> under \<open>requestId\<close>.
\<close>

definition request ::
  "string \<Rightarrow> int \<Rightarrow> string \<Rightarrow> (string \<times> jsval) list \<Rightarrow> string option \<Rightarrow> broker \<Rightarrow> broker" where
  "request requestId timestamp exchangeName options connectionName b =
     (let name = or_str connectionName
                   (or_str (str_prop options ''connectionName'') ''default'');
          options1 = AList.update ''messageId'' (JStr requestId) options;
          options2 = AList.update ''connectionName'' (JStr name) options1;
          b1 = do_effect (ResponsesSubscribe requestId)
                 (b\<lparr>requests := AList.update requestId
                        \<lparr>rq_promise = Waiting, rq_subscribed = True, rq_progress = []\<rparr>
                        (requests b)\<rparr>)
      in case publish timestamp exchangeName (WithOptions options2 None) b1 of
           (Inl e, b2) \<Rightarrow> reject requestId e b2
         | (Inr u, b2) \<Rightarrow> b2)"

text \<open>
  A message published on the responses channel reaches the callback of the request whose
  identifier is the message's topic, as long as that subscription is there.
\<close>

definition deliver :: "message \<Rightarrow> broker \<Rightarrow> broker" where
  "deliver message b =
     (case map_of (requests b) (m_correlationId message) of
        None \<Rightarrow> b
      | Some r \<Rightarrow>
          if rq_subscribed r then on_response (m_correlationId message) message b else b)"

fun deliver_all :: "message list \<Rightarrow> broker \<Rightarrow> broker" where
  "deliver_all [] b = b"
| "deliver_all (m # ms) b = deliver_all ms (deliver m b)"

subsection \<open>Reset, retry and subscriptions\<close>

definition reset :: "broker \<Rightarrow> broker" where
  "reset b = b\<lparr>connections := [], configurations := []\<rparr>"

text \<open>
  Modelled from the spec: \<open>configure\<close> (\<^verbatim>\<open>config.js\<close>) is not among the sources. It stores
  the configuration under its name, so that \<open>retry\<close> finds the last one stored, and
  builds the connection from it. Given anything that is not a stored configuration
  (\<open>undefined\<close>, or a member inherited from \<open>Object.prototype\<close>) it throws.
\<close>

definition configure :: "configuration option \<Rightarrow> broker \<Rightarrow> (error + unit) \<times> broker" where
  "configure config b =
     (case config of
        None \<Rightarrow> (Inl TypeError, b)
      | Some cfg \<Rightarrow>
          (let b1 = b\<lparr>configurations :=
                        js_set (or_str (cfg_name cfg) ''default'') cfg (configurations b)\<rparr>
           in case addConnection (cfg_connection cfg) b1 of
                (Inl e, b2) \<Rightarrow> (Inl e, b2)
              | (Inr t, b2) \<Rightarrow> (Inr (), b2)))"

definition retry :: "string option \<Rightarrow> broker \<Rightarrow> (error + unit) \<times> broker" where
  "retry connectionName b =
     (let config = (case js_get (configurations b) (or_str connectionName ''default'') of
                      Own cfg \<Rightarrow> Some cfg
                    | _ \<Rightarrow> None)
      in configure config b)"

definition no_queue_error :: "string \<Rightarrow> string \<Rightarrow> string" where
  "no_queue_error queueName connectionName =
     ''No queue named '' @ [CHR 0x27] @ queueName @ [CHR 0x27] @ '' for connection '' @
     [CHR 0x27] @ connectionName @ [CHR 0x27] @ ''. Subscription failed.''"

definition startSubscription ::
  "string \<Rightarrow> excl \<Rightarrow> string option \<Rightarrow> broker \<Rightarrow> (error + channel) \<times> broker" where
  "startSubscription queueName exclusive connectionName b =
     (let b1 = (if \<not> hasHandles b
                then do_effect (Warn (no_handlers_warning queueName)) b else b);
          connectionName1 =
            (case exclusive of ExclString s \<Rightarrow> Some s | _ \<Rightarrow> connectionName);
          exclusive1 = (case exclusive of ExclString s \<Rightarrow> ExclBool False | _ \<Rightarrow> exclusive);
          name = or_str connectionName1 ''default''
      in case getQueue queueName (Some name) b1 of
           Inl e \<Rightarrow> (Inl e, b1)
         | Inr (Some queue) \<Rightarrow>
             (Inr queue, do_effect (QueueSubscribe name (ch_key queue) exclusive1) b1)
         | Inr None \<Rightarrow> (Inl (Error (no_queue_error queueName name)), b1))"

subsection \<open>The broker over time\<close>

text \<open>
  Everything that can happen to a broker: a call of one of its methods, with the arguments
  of the call, or one of the callbacks it has handed out being run (a lifecycle event of a
  connection, a tick of the acknowledgement timer, a reply on the responses channel, the
  removal of a subscription that \<open>handle\<close> returned). \<open>getExchange\<close> and \<open>getQueue\<close>
  only read.
\<close>

datatype op =
    Call_addConnection "conn_options option"
  | Call_addExchange exchange_arg "string option" "(string \<times> jsval) list option" "string option"
  | Call_addQueue string "(string \<times> jsval) list option" "string option"
  | Call_addSerializer string codec
  | Call_batchAck
  | Call_bindExchange string string "string list" "string option"
  | Call_bindQueue string string "string list" "string option"
  | Call_clearAckInterval
  | Call_closeAll bool
  | Call_close "string option" bool
  | Call_deleteExchange string "string option"
  | Call_deleteQueue string "string option"
  | Call_getExchange string "string option"
  | Call_getQueue string "string option"
  | Call_handle "string option" "string option"
  | Call_ignoreHandlerErrors
  | Call_nackOnError
  | Call_nackUnhandled
  | Call_onUnhandled nat
  | Call_rejectUnhandled
  | Call_publish int string publish_args
  | Call_request string int string "(string \<times> jsval) list" "string option"
  | Call_reset
  | Call_retry "string option"
  | Call_configure "configuration option"
  | Call_setAckInterval int
  | Call_shutdown
  | Call_startSubscription string excl "string option"
  | Call_remove nat
  | Event_connected string connection
  | Event_closed string connection
  | Event_failed string connection string
  | Event_unreachable string connection
  | Event_tick
  | Event_reply message

fun step :: "(string \<Rightarrow> bool \<Rightarrow> outcome) \<Rightarrow> op \<Rightarrow> broker \<Rightarrow> broker" where
  "step cc (Call_addConnection options) b = snd (addConnection options b)"
| "step cc (Call_addExchange name type options connectionName) b =
     snd (addExchange name type options connectionName b)"
| "step cc (Call_addQueue name options connectionName) b =
     snd (addQueue name options connectionName b)"
| "step cc (Call_addSerializer contentType serializer) b = addSerializer contentType serializer b"
| "step cc Call_batchAck b = batchAck b"
| "step cc (Call_bindExchange source target keys connectionName) b =
     snd (bindExchange source target keys connectionName b)"
| "step cc (Call_bindQueue source target keys connectionName) b =
     snd (bindQueue source target keys connectionName b)"
| "step cc Call_clearAckInterval b = clearAckInterval b"
| "step cc (Call_closeAll r) b = snd (closeAll cc r b)"
| "step cc (Call_close connectionName r) b = snd (close cc connectionName r b)"
| "step cc (Call_deleteExchange name connectionName) b = snd (deleteExchange name connectionName b)"
| "step cc (Call_deleteQueue name connectionName) b = snd (deleteQueue name connectionName b)"
| "step cc (Call_getExchange name connectionName) b = b"
| "step cc (Call_getQueue name connectionName) b = b"
| "step cc (Call_handle messageType queueName) b = snd (handle messageType queueName b)"
| "step cc Call_ignoreHandlerErrors b = ignoreHandlerErrors b"
| "step cc Call_nackOnError b = nackOnError b"
| "step cc Call_nackUnhandled b = nackUnhandled b"
| "step cc (Call_onUnhandled handler) b = onUnhandled handler b"
| "step cc Call_rejectUnhandled b = rejectUnhandled b"
| "step cc (Call_publish timestamp exchangeName args) b = snd (publish timestamp exchangeName args b)"
| "step cc (Call_request requestId timestamp exchangeName options connectionName) b =
     request requestId timestamp exchangeName options connectionName b"
| "step cc Call_reset b = reset b"
| "step cc (Call_retry connectionName) b = snd (retry connectionName b)"
| "step cc (Call_configure config) b = snd (configure config b)"
| "step cc (Call_setAckInterval interval) b = setAckInterval interval b"
| "step cc Call_shutdown b = snd (shutdown cc b)"
| "step cc (Call_startSubscription queueName exclusive connectionName) b =
     snd (startSubscription queueName exclusive connectionName b)"
| "step cc (Call_remove i) b = remove i b"
| "step cc (Event_connected name connection) b = on_connected name connection b"
| "step cc (Event_closed name connection) b = on_closed name connection b"
| "step cc (Event_failed name connection err) b = on_failed name connection err b"
| "step cc (Event_unreachable name connection) b = on_unreachable name connection b"
| "step cc Event_tick b = batchAck b"
| "step cc (Event_reply message) b = deliver message b"

fun run :: "(string \<Rightarrow> bool \<Rightarrow> outcome) \<Rightarrow> op list \<Rightarrow> broker \<Rightarrow> broker" where
  "run cc [] b = b"
| "run cc (x # xs) b = run cc xs (step cc x b)"

text \<open>The warnings printed so far, and the events emitted so far.\<close>

definition warnings :: "broker \<Rightarrow> string list" where
  "warnings b = [w. Warn w \<leftarrow> trace b]"

definition emitted :: "broker \<Rightarrow> (string \<times> payload) list" where
  "emitted b = [(ev, p). Emit ev p \<leftarrow> trace b]"

subsection \<open>Serializers\<close>

text \<open>
  Of the three seeded codecs, the one under \<open>application/octet-stream\<close> is written out
  in \<^verbatim>\<open>index.js\<close>: both of its functions return their argument. The other two hand their
  argument to \<open>JSON\<close> and \<open>Buffer\<close>.
\<close>

definition octet_serialize :: "'a \<Rightarrow> 'a" where
  "octet_serialize bytes = bytes"

definition octet_deserialize :: "'a \<Rightarrow> 'a" where
  "octet_deserialize bytes = bytes"

text \<open>The subscriptions started on queues so far: connection, queue key, exclusive.\<close>

definition subscribed :: "broker \<Rightarrow> (string \<times> string \<times> excl) list" where
  "subscribed b = [(c, q, e). QueueSubscribe c q e \<leftarrow> trace b]"

text \<open>The calls of a connection's \<open>close\<close> so far: connection name and \<open>reset\<close>.\<close>

definition closes :: "broker \<Rightarrow> (string \<times> bool) list" where
  "closes b = [(n, r). ConnClose n r \<leftarrow> trace b]"

text \<open>The connection registered under a key, if there is one.\<close>

definition conn_of :: "broker \<Rightarrow> string \<Rightarrow> connection option" where
  "conn_of b k = (case map_of (connections b) k of None \<Rightarrow> None | Some t \<Rightarrow> t_connection t)"

definition closer_name :: "topology \<Rightarrow> string" where
  "closer_name t = (case t_connection t of None \<Rightarrow> [] | Some c \<Rightarrow> c_name c)"

text \<open>
  The registry as \<open>addConnection\<close> builds it: the keys are distinct and not empty, and
  the topology under a key carries that key as its name and has a connection.
\<close>

definition registered_ok :: "broker \<Rightarrow> bool" where
  "registered_ok b =
     (distinct (map fst (connections b)) \<and>
      list_all (\<lambda>(k, t). k \<noteq> [] \<and> t_name t = Some k \<and> t_connection t \<noteq> None)
        (connections b))"

section \<open>Properties\<close>

subsection \<open>Effects and the fields they leave alone\<close>

lemma trace_do_effect: "trace (do_effect e b) = trace b @ [e]"
  by (simp add: do_effect_def)

lemma connections_do_effect: "connections (do_effect e b) = connections b"
  by (simp add: do_effect_def)

lemma emitted_emit: "emitted (emit ev p b) = emitted b @ [(ev, p)]"
  by (simp add: emitted_def emit_def do_effect_def)

lemma emitted_clearAckInterval: "emitted (clearAckInterval b) = emitted b"
  by (simp add: emitted_def clearAckInterval_def do_effect_def)

lemma subscribed_do_effect:
  "subscribed (do_effect e b) =
     subscribed b @ (case e of QueueSubscribe c q x \<Rightarrow> [(c, q, x)] | _ \<Rightarrow> [])"
  by (cases e) (simp_all add: subscribed_def do_effect_def)

lemma getQueue_do_effect: "getQueue q n (do_effect e b) = getQueue q n b"
  by (simp add: getQueue_def do_effect_def)

subsection \<open>Reading and writing dictionaries\<close>

lemma set_insert_index: "set (insert_index idx n k v al) = insert (k, v) (set al)"
proof (induction al)
  case Nil
  show ?case by simp
next
  case (Cons e al)
  obtain k' v' where e: "e = (k', v')" by (cases e)
  show ?case
  proof (cases "idx k'")
    case None
    with e show ?thesis by auto
  next
    case (Some m)
    with e Cons.IH show ?thesis by (cases "m < n") auto
  qed
qed

lemma keys_insert_index:
  "distinct (map fst (insert_index idx n k v al)) =
     (k \<notin> fst ` set al \<and> distinct (map fst al))"
proof (induction al)
  case Nil
  show ?case by simp
next
  case (Cons e al)
  obtain k' v' where e: "e = (k', v')" by (cases e)
  have s: "fst ` set (insert_index idx n k v al) = insert k (fst ` set al)"
    by (simp add: set_insert_index)
  show ?case
  proof (cases "idx k'")
    case None
    with e show ?thesis by auto
  next
    case (Some m)
    with e Cons.IH s show ?thesis by (cases "m < n") auto
  qed
qed




lemma set_set_property_new:
  "map_of al k = None \<Longrightarrow> set (set_property idx k v al) = insert (k, v) (set al)"
  by (cases "idx k") (simp_all add: set_property_def set_insert_index)

lemma distinct_set_property:
  "distinct (map fst (set_property idx k v al)) = distinct (map fst al)"
proof (cases "map_of al k")
  case None
  then have "k \<notin> fst ` set al" by (simp add: map_of_eq_None_iff)
  with None show ?thesis
    by (cases "idx k") (simp_all add: set_property_def keys_insert_index)
next
  case (Some x)
  then have "k \<in> fst ` set al" by (metis map_of_eq_None_iff option.distinct(1))
  with Some show ?thesis
    by (simp add: set_property_def update_keys)
qed

lemmas dict_evals =
  js_get_def js_set_def set_property_def object_prototype_members_def array_index_def
  digit_def read_nat_def


lemma js_get_Missing:
  "(js_get obj k = Missing) = (map_of obj k = None \<and> k \<notin> set object_prototype_members)"
  by (simp add: js_get_def split: option.splits)

lemma js_get_Inherited:
  "(js_get obj k = Inherited) = (map_of obj k = None \<and> k \<in> set object_prototype_members)"
  by (simp add: js_get_def split: option.splits)

lemma not_member_not_proto: "k \<notin> set object_prototype_members \<Longrightarrow> k \<noteq> ''__proto__''"
  by (auto simp: object_prototype_members_def)


lemma octet_round_trip: "octet_deserialize (octet_serialize bytes) = bytes"
  by (simp add: octet_serialize_def octet_deserialize_def)

lemma seeded_content_types:
  "map fst (serializers Broker) =
     [''application/json'', ''application/octet-stream'', ''text/plain'']"
  by (simp add: Broker_def seeded_serializers_def)

subsection \<open>Adding a connection\<close>






lemmas broker_evals =
  addQueue_def addConnection_def Broker_def Let_def connection_name_def defaulted_def
  no_options_def or_str_def or_num_def do_effect_def topologyFn_def connectionFn_def
  prop_truthy_def createQueue_def on_topology_def register_channel_def channel_name_def
  dict_evals


subsection \<open>Lifecycle events\<close>

theorem on_unreachable_emitted:
  "emitted (on_unreachable name connection b) =
     emitted b @ [(''unreachable'', PConnection connection),
                  (name, PString ''.connection.unreachable'')]"
  by (simp add: on_unreachable_def emitted_emit emitted_clearAckInterval)

text \<open>
  Claim C6. When the connection \<open>default\<close> signals unreachable, the broker emits the
  generic event \<open>unreachable\<close> and then an event named \<open>default\<close> whose payload is the
  string \<open>.connection.unreachable\<close>; no event named \<open>default.connection.unreachable\<close>
  is emitted. The handler of \<open>failed\<close> beside it does emit the qualified name
  \<open>default.connection.failed\<close>. The acknowledgement timer is disarmed.
\<close>

theorem unreachable_not_qualified:
  "map fst (emitted (on_unreachable ''default'' connection Broker)) =
     [''unreachable'', ''default''] \<and>
   ''default.connection.unreachable'' \<notin>
     fst ` set (emitted (on_unreachable ''default'' connection Broker)) \<and>
   map fst (emitted (on_failed ''default'' connection err Broker)) =
     [''failed'', ''default.connection.failed''] \<and>
   timers (on_unreachable ''default'' connection (setAckInterval 500 Broker)) = []"
  by (simp add: on_unreachable_def on_failed_def emitted_emit emitted_clearAckInterval)
     (simp add: emitted_def Broker_def setAckInterval_def clearAckInterval_def emit_def
        do_effect_def Let_def)

subsection \<open>Closing a connection\<close>

text \<open>
  Claim C4. On a broker without connections, \<open>close\<close> of the default connection and
  \<open>close\<close> of a connection named \<open>ghost\<close> both throw a \<open>TypeError\<close> (the registry
  entry is \<open>undefined\<close> and its property \<open>connection\<close> is read), whatever \<open>reset\<close> is;
  neither returns a resolved promise.
\<close>

theorem close_unknown_throws:
  "close cc None r Broker = (Inl TypeError, Broker) \<and>
   close cc (Some ''ghost'') r Broker = (Inl TypeError, Broker)"
  by (simp add: close_def Broker_def or_str_def dict_evals)

subsection \<open>Reset\<close>

theorem reset_not_cold_start:
  "hasHandles (reset (snd (handle (Some ''created'') None Broker))) \<noteq> hasHandles Broker"
  by (simp add: reset_def handle_def Broker_def Let_def do_effect_def)

text \<open>
  Claim C9, amended. A global reset clears all connections and all stored configurations,
  as in a freshly constructed broker, and leaves every other part of the broker's state as
  it was: the \<open>hasHandles\<close> and \<open>autoNack\<close> flags, the acknowledgement timer, the
  serializers, the strategy for unhandled messages, the subscriptions and the pending
  requests.
\<close>

theorem reset_clears:
  "connections (reset b) = connections Broker \<and>
   configurations (reset b) = configurations Broker \<and>
   hasHandles (reset b) = hasHandles b \<and>
   autoNack (reset b) = autoNack b \<and>
   ackIntervalId (reset b) = ackIntervalId b \<and>
   timers (reset b) = timers b \<and>
   serializers (reset b) = serializers b \<and>
   unhandled (reset b) = unhandled b \<and>
   customHandler (reset b) = customHandler b \<and>
   subs (reset b) = subs b \<and>
   requests (reset b) = requests b"
  by (simp add: reset_def Broker_def)

subsection \<open>Starting a subscription\<close>

text \<open>
  Claim C8. The connection is the one named by the third argument, or by the second when
  that is a string, or \<open>default\<close>. When no queue of the given name is registered on it,
  \<open>startSubscription\<close> throws an error (its result is the error, not a promise), starts
  no subscription and leaves the registry alone. When the queue is registered, it
  subscribes that queue and returns it.
\<close>

theorem startSubscription_undeclared_throws:
  "(getQueue queueName
      (Some (or_str (case exclusive of ExclString s \<Rightarrow> Some s | _ \<Rightarrow> connectionName)
               ''default'')) b = Inr None \<longrightarrow>
      fst (startSubscription queueName exclusive connectionName b) =
        Inl (Error (no_queue_error queueName
          (or_str (case exclusive of ExclString s \<Rightarrow> Some s | _ \<Rightarrow> connectionName)
             ''default''))) \<and>
      subscribed (snd (startSubscription queueName exclusive connectionName b)) =
        subscribed b \<and>
      connections (snd (startSubscription queueName exclusive connectionName b)) =
        connections b) \<and>
   (getQueue queueName
      (Some (or_str (case exclusive of ExclString s \<Rightarrow> Some s | _ \<Rightarrow> connectionName)
               ''default'')) b = Inr (Some queue) \<longrightarrow>
      fst (startSubscription queueName exclusive connectionName b) = Inr queue \<and>
      subscribed (snd (startSubscription queueName exclusive connectionName b)) =
        subscribed b @
        [(or_str (case exclusive of ExclString s \<Rightarrow> Some s | _ \<Rightarrow> connectionName)
            ''default'',
          ch_key queue,
          case exclusive of ExclString s \<Rightarrow> ExclBool False | _ \<Rightarrow> exclusive)])"
  by (simp add: startSubscription_def Let_def getQueue_do_effect subscribed_do_effect
      connections_do_effect)

theorem startSubscription_undeclared_throws_witness:
  "getQueue ''ghost'' (Some ''default'')
     (snd (addQueue ''orders'' (Some []) None (snd (addConnection None Broker)))) = Inr None \<and>
   fst (startSubscription ''ghost'' ExclUndefined None
     (snd (addQueue ''orders'' (Some []) None (snd (addConnection None Broker))))) =
     Inl (Error (no_queue_error ''ghost'' ''default'')) \<and>
   subscribed (snd (startSubscription ''ghost'' ExclUndefined None
     (snd (addQueue ''orders'' (Some []) None (snd (addConnection None Broker)))))) = [] \<and>
   getQueue ''orders'' (Some ''default'')
     (snd (addQueue ''orders'' (Some []) None (snd (addConnection None Broker)))) =
     Inr (Some \<lparr>ch_key = ''queue:orders'', ch_options = [(''name'', JStr ''orders'')]\<rparr>) \<and>
   fst (startSubscription ''orders'' (ExclString ''default'') None
     (snd (addQueue ''orders'' (Some []) None (snd (addConnection None Broker))))) =
     Inr \<lparr>ch_key = ''queue:orders'', ch_options = [(''name'', JStr ''orders'')]\<rparr> \<and>
   subscribed (snd (startSubscription ''orders'' (ExclString ''default'') None
     (snd (addQueue ''orders'' (Some []) None (snd (addConnection None Broker)))))) =
     [(''default'', ''queue:orders'', ExclBool False)]"
  using startSubscription_undeclared_throws
    [where queueName = "''ghost''" and exclusive = ExclUndefined and connectionName = None
       and b = "snd (addQueue ''orders'' (Some []) None (snd (addConnection None Broker)))"]
    startSubscription_undeclared_throws
    [where queueName = "''orders''" and exclusive = "ExclString ''default''"
       and connectionName = None
       and b = "snd (addQueue ''orders'' (Some []) None (snd (addConnection None Broker)))"
       and queue = "\<lparr>ch_key = ''queue:orders'', ch_options = [(''name'', JStr ''orders'')]\<rparr>"]
  by (simp add: broker_evals getQueue_def subscribed_def)

subsection \<open>Topics\<close>


lemma sanitize_id: "(sanitize q = q) = (CHR ''.'' \<notin> set q)"
  by (induction q) (auto simp: sanitize_def)







subsection \<open>The flag \<open>hasHandles\<close>\<close>

lemma hasHandles_do_effect [simp]: "hasHandles (do_effect e b) = hasHandles b"
  by (simp add: do_effect_def)

lemma warnings_do_effect [simp]:
  "warnings (do_effect e b) = warnings b @ (case e of Warn w \<Rightarrow> [w] | _ \<Rightarrow> [])"
  by (cases e) (simp_all add: warnings_def do_effect_def)

lemma frame_on_topology [simp]:
  "hasHandles (on_topology k f b) = hasHandles b" "warnings (on_topology k f b) = warnings b"
  by (simp_all add: on_topology_def warnings_def)

lemma frame_on_request [simp]:
  "hasHandles (on_request k f b) = hasHandles b" "warnings (on_request k f b) = warnings b"
  by (simp_all add: on_request_def warnings_def)

lemma frame_clearAckInterval [simp]:
  "hasHandles (clearAckInterval b) = hasHandles b" "warnings (clearAckInterval b) = warnings b"
  by (simp_all add: clearAckInterval_def warnings_def do_effect_def)

lemma frame_setAckInterval [simp]:
  "hasHandles (setAckInterval i b) = hasHandles b" "warnings (setAckInterval i b) = warnings b"
  by (simp_all add: setAckInterval_def Let_def warnings_def do_effect_def clearAckInterval_def)

lemma frame_emit [simp]:
  "hasHandles (emit ev p b) = hasHandles b" "warnings (emit ev p b) = warnings b"
  by (simp_all add: emit_def)

lemma frame_addConnection [simp]:
  "hasHandles (snd (addConnection options b)) = hasHandles b"
  "warnings (snd (addConnection options b)) = warnings b"
  by (simp_all add: addConnection_def Let_def warnings_def do_effect_def
      split: option.splits property.splits)

lemma frame_topology [simp]:
  "hasHandles (createExchange k obj b) = hasHandles b"
  "warnings (createExchange k obj b) = warnings b"
  "hasHandles (createQueue k obj b) = hasHandles b"
  "warnings (createQueue k obj b) = warnings b"
  "hasHandles (createBinding k s t ks q b) = hasHandles b"
  "warnings (createBinding k s t ks q b) = warnings b"
  "hasHandles (topology_deleteExchange k n b) = hasHandles b"
  "warnings (topology_deleteExchange k n b) = warnings b"
  "hasHandles (topology_deleteQueue k n b) = hasHandles b"
  "warnings (topology_deleteQueue k n b) = warnings b"
  "hasHandles (topology_reset k b) = hasHandles b"
  "warnings (topology_reset k b) = warnings b"
  by (simp_all add: createExchange_def createQueue_def createBinding_def
      topology_deleteExchange_def topology_deleteQueue_def topology_reset_def Let_def)

lemma frame_addExchange [simp]:
  "hasHandles (snd (addExchange n ty obj cn b)) = hasHandles b"
  "warnings (snd (addExchange n ty obj cn b)) = warnings b"
  by (simp_all add: addExchange_def Let_def split: option.splits exchange_arg.splits)

lemma hasHandles_addQueue [simp]:
  "hasHandles (snd (addQueue n obj cn b)) = hasHandles b"
  by (simp add: addQueue_def Let_def split: option.splits)

lemma warnings_addQueue:
  "hasHandles b \<Longrightarrow> warnings (snd (addQueue n obj cn b)) = warnings b"
  by (simp add: addQueue_def Let_def split: option.splits)

lemma frame_bind [simp]:
  "hasHandles (snd (bindExchange s t ks cn b)) = hasHandles b"
  "warnings (snd (bindExchange s t ks cn b)) = warnings b"
  "hasHandles (snd (bindQueue s t ks cn b)) = hasHandles b"
  "warnings (snd (bindQueue s t ks cn b)) = warnings b"
  "hasHandles (snd (deleteExchange n cn b)) = hasHandles b"
  "warnings (snd (deleteExchange n cn b)) = warnings b"
  "hasHandles (snd (deleteQueue n cn b)) = hasHandles b"
  "warnings (snd (deleteQueue n cn b)) = warnings b"
  by (simp_all add: bindExchange_def bindQueue_def deleteExchange_def deleteQueue_def Let_def
      split: option.splits)

lemma frame_close [simp]:
  "hasHandles (snd (close cc cn r b)) = hasHandles b"
  "warnings (snd (close cc cn r b)) = warnings b"
  by (simp_all add: close_def Let_def split: option.splits property.splits)

lemma frame_close_each [simp]:
  "hasHandles (snd (close_each cc r ts b)) = hasHandles b \<and>
   warnings (snd (close_each cc r ts b)) = warnings b"
proof (induction ts arbitrary: b)
  case Nil
  show ?case by simp
next
  case (Cons t ts)
  obtain res b1 where c: "close cc (t_name t) r b = (res, b1)"
    by (cases "close cc (t_name t) r b")
  from frame_close [of cc "t_name t" r b] c
  have f: "hasHandles b1 = hasHandles b" "warnings b1 = warnings b" by simp_all
  obtain res2 b2 where d: "close_each cc r ts b1 = (res2, b2)"
    by (cases "close_each cc r ts b1")
  from Cons.IH [of b1] d f
  have g: "hasHandles b2 = hasHandles b" "warnings b2 = warnings b" by simp_all
  from c d f g show ?case
    by (cases res; cases res2) simp_all
qed

lemma frame_closeAll [simp]:
  "hasHandles (snd (closeAll cc r b)) = hasHandles b"
  "warnings (snd (closeAll cc r b)) = warnings b"
  by (simp_all add: closeAll_def case_prod_beta split: sum.splits)

lemma frame_shutdown [simp]:
  "hasHandles (snd (shutdown cc b)) = hasHandles b"
  "warnings (snd (shutdown cc b)) = warnings b"
  by (simp_all add: shutdown_def case_prod_beta split: sum.splits outcome.splits)

lemma frame_policy [simp]:
  "hasHandles (addSerializer ct c b) = hasHandles b"
  "warnings (addSerializer ct c b) = warnings b"
  "hasHandles (batchAck b) = hasHandles b"
  "warnings (batchAck b) = warnings b"
  "hasHandles (ignoreHandlerErrors b) = hasHandles b"
  "warnings (ignoreHandlerErrors b) = warnings b"
  "hasHandles (nackOnError b) = hasHandles b"
  "warnings (nackOnError b) = warnings b"
  "hasHandles (nackUnhandled b) = hasHandles b"
  "warnings (nackUnhandled b) = warnings b"
  "hasHandles (onUnhandled h b) = hasHandles b"
  "warnings (onUnhandled h b) = warnings b"
  "hasHandles (rejectUnhandled b) = hasHandles b"
  "warnings (rejectUnhandled b) = warnings b"
  "hasHandles (remove i b) = hasHandles b"
  "warnings (remove i b) = warnings b"
  by (simp_all add: addSerializer_def batchAck_def ignoreHandlerErrors_def nackOnError_def
      nackUnhandled_def onUnhandled_def rejectUnhandled_def remove_def warnings_def
      do_effect_def)

lemma frame_handle [simp]:
  "hasHandles (snd (handle mt qn b))"
  "warnings (snd (handle mt qn b)) = warnings b"
  by (simp_all add: handle_def Let_def warnings_def do_effect_def)

lemma frame_publish [simp]:
  "hasHandles (snd (publish ts ex args b)) = hasHandles b"
  "warnings (snd (publish ts ex args b)) = warnings b"
  by (simp_all add: publish_def Let_def split: sum.splits prod.splits option.splits)

lemma frame_promise [simp]:
  "hasHandles (resolve i m b) = hasHandles b"
  "warnings (resolve i m b) = warnings b"
  "hasHandles (reject i e b) = hasHandles b"
  "warnings (reject i e b) = warnings b"
  "hasHandles (notify i m b) = hasHandles b"
  "warnings (notify i m b) = warnings b"
  "hasHandles (unsubscribe i b) = hasHandles b"
  "warnings (unsubscribe i b) = warnings b"
  by (simp_all add: resolve_def reject_def notify_def unsubscribe_def)

lemma frame_request [simp]:
  "hasHandles (request i ts ex obj cn b) = hasHandles b"
  "warnings (request i ts ex obj cn b) = warnings b"
proof -
  have h: "hasHandles (b\<lparr>requests := x\<rparr>) = hasHandles b"
    "warnings (b\<lparr>requests := x\<rparr>) = warnings b" for x
    by (simp_all add: warnings_def)
  show "hasHandles (request i ts ex obj cn b) = hasHandles b"
    "warnings (request i ts ex obj cn b) = warnings b"
    by (simp_all add: request_def Let_def case_prod_beta h split: sum.splits)
qed

lemma frame_deliver [simp]:
  "hasHandles (deliver m b) = hasHandles b"
  "warnings (deliver m b) = warnings b"
  by (simp_all add: deliver_def on_response_def split: option.splits)

lemma frame_reset [simp]:
  "hasHandles (reset b) = hasHandles b"
  "warnings (reset b) = warnings b"
  by (simp_all add: reset_def warnings_def)

lemma frame_configure [simp]:
  "hasHandles (snd (configure c b)) = hasHandles b"
  "warnings (snd (configure c b)) = warnings b"
proof -
  have h: "hasHandles (b\<lparr>configurations := x\<rparr>) = hasHandles b"
    "warnings (b\<lparr>configurations := x\<rparr>) = warnings b" for x
    by (simp_all add: warnings_def)
  show "hasHandles (snd (configure c b)) = hasHandles b"
    "warnings (snd (configure c b)) = warnings b"
    by (simp_all add: configure_def Let_def case_prod_beta h split: option.splits sum.splits)
qed

lemma frame_retry [simp]:
  "hasHandles (snd (retry cn b)) = hasHandles b"
  "warnings (snd (retry cn b)) = warnings b"
  by (simp_all add: retry_def Let_def)

lemma hasHandles_startSubscription [simp]:
  "hasHandles (snd (startSubscription q x cn b)) = hasHandles b"
  by (simp add: startSubscription_def Let_def split: sum.splits option.splits)

lemma warnings_startSubscription:
  "hasHandles b \<Longrightarrow> warnings (snd (startSubscription q x cn b)) = warnings b"
  by (simp add: startSubscription_def Let_def split: sum.splits option.splits)

lemma frame_events [simp]:
  "hasHandles (on_connected n c b) = hasHandles b"
  "warnings (on_connected n c b) = warnings b"
  "hasHandles (on_closed n c b) = hasHandles b"
  "warnings (on_closed n c b) = warnings b"
  "hasHandles (on_failed n c e b) = hasHandles b"
  "warnings (on_failed n c e b) = warnings b"
  "hasHandles (on_unreachable n c b) = hasHandles b"
  "warnings (on_unreachable n c b) = warnings b"
  by (simp_all add: on_connected_def on_closed_def on_failed_def on_unreachable_def)

lemma step_keeps_handles:
  "hasHandles b \<Longrightarrow> hasHandles (step cc x b) \<and> warnings (step cc x b) = warnings b"
  by (cases x) (simp_all add: warnings_addQueue warnings_startSubscription)

lemma run_keeps_handles:
  "hasHandles b \<Longrightarrow> hasHandles (run cc xs b) \<and> warnings (run cc xs b) = warnings b"
proof (induction xs arbitrary: b)
  case Nil
  then show ?case by simp
next
  case (Cons x xs)
  from step_keeps_handles [OF Cons.prems, of cc x] Cons.IH [of "step cc x b"]
  show ?case by simp
qed


lemma run_append: "run cc (xs @ ys) b = run cc ys (run cc xs b)"
  by (induction xs arbitrary: b) simp_all

text \<open>
  Claim C10. \<open>hasHandles\<close> is false in a new broker and true after any call of
  \<open>handle\<close>. Once it is true it stays true through every sequence of operations and
  events (removing subscriptions and \<open>reset\<close> among them), and no such sequence prints a
  warning. So in the life of a broker, the warnings are all printed before the first call
  of \<open>handle\<close>: whatever comes after it adds none.
\<close>

theorem hasHandles_monotone:
  "\<not> hasHandles Broker \<and>
   hasHandles (snd (handle messageType queueName a)) \<and>
   (hasHandles b \<longrightarrow>
      hasHandles (run cc xs b) \<and> warnings (run cc xs b) = warnings b) \<and>
   warnings (run cc (before @ Call_handle messageType queueName # after) Broker) =
     warnings (run cc before Broker)"
proof -
  have "hasHandles (step cc (Call_handle messageType queueName) (run cc before Broker))"
    by simp
  from run_keeps_handles [OF this, of cc after]
  have "warnings (run cc (before @ Call_handle messageType queueName # after) Broker) =
     warnings (run cc before Broker)"
    by (simp add: run_append)
  with run_keeps_handles [of b cc xs] show ?thesis
    by (simp add: Broker_def)
qed

theorem hasHandles_monotone_witness:
  "hasHandles (snd (handle (Some ''created'') None Broker)) \<and>
   hasHandles (run (\<lambda>n r. Pending)
     [Call_remove 0, Call_reset, Call_startSubscription ''orders'' ExclUndefined None,
      Call_addQueue ''orders'' (Some [(''subscribe'', JBool True)]) None]
     (snd (handle (Some ''created'') None Broker))) \<and>
   warnings (run (\<lambda>n r. Pending)
     [Call_remove 0, Call_reset, Call_startSubscription ''orders'' ExclUndefined None,
      Call_addQueue ''orders'' (Some [(''subscribe'', JBool True)]) None]
     (snd (handle (Some ''created'') None Broker))) = [] \<and>
   warnings (run (\<lambda>n r. Pending)
     [Call_startSubscription ''orders'' ExclUndefined None] Broker) =
     [no_handlers_warning ''orders'']"
  using hasHandles_monotone
    [where b = "snd (handle (Some ''created'') None Broker)" and cc = "\<lambda>n r. Pending"
       and xs = "[Call_remove 0, Call_reset,
                  Call_startSubscription ''orders'' ExclUndefined None,
                  Call_addQueue ''orders'' (Some [(''subscribe'', JBool True)]) None]"]
  by (simp add: handle_def Broker_def Let_def do_effect_def warnings_def
      startSubscription_def getQueue_def or_str_def)


subsection \<open>Requests and their replies\<close>

lemma entry_on_request:
  "map_of (requests b) k = Some r \<Longrightarrow> map_of (requests (on_request k f b)) k = Some (f r)"
  by (simp add: on_request_def map_of_map_entry)

lemma trace_on_request: "trace (on_request k f b) = trace b"
  by (simp add: on_request_def)

lemma requests_do_effect: "requests (do_effect e b) = requests b"
  by (simp add: do_effect_def)

lemma deliver_partial:
  assumes "map_of (requests b) rid = Some r" "rq_subscribed r" "rq_promise r = Waiting"
      and "m_correlationId m = rid" "\<not> prop_truthy (m_headers m) ''sequence_end''"
  shows "map_of (requests (deliver m b)) rid = Some (r\<lparr>rq_progress := rq_progress r @ [m]\<rparr>)"
    and "trace (deliver m b) = trace b @ [PromiseNotify rid m]"
  using assms
  by (simp_all add: deliver_def on_response_def notify_def waiting_def requests_do_effect
      entry_on_request trace_do_effect trace_on_request)

lemma deliver_terminal:
  assumes "map_of (requests b) rid = Some r" "rq_subscribed r" "rq_promise r = Waiting"
      and "m_correlationId m = rid" "prop_truthy (m_headers m) ''sequence_end''"
  shows "map_of (requests (deliver m b)) rid =
           Some (r\<lparr>rq_promise := Resolved m, rq_subscribed := False\<rparr>)"
    and "trace (deliver m b) = trace b @ [PromiseResolve rid m, ResponsesUnsubscribe rid]"
  using assms
  by (simp_all add: deliver_def on_response_def resolve_def unsubscribe_def waiting_def
      requests_do_effect entry_on_request trace_do_effect trace_on_request)

lemma deliver_all_unsubscribed:
  assumes "map_of (requests b) rid = Some r" "\<not> rq_subscribed r"
      and "\<forall>m\<in>set ms. m_correlationId m = rid"
  shows "deliver_all ms b = b"
  using assms by (induction ms) (simp_all add: deliver_def)

lemma deliver_all_replies:
  assumes "map_of (requests b) rid = Some r" "rq_subscribed r" "rq_promise r = Waiting"
      and "\<forall>m\<in>set ms. m_correlationId m = rid"
  shows "case dropWhile (\<lambda>m. \<not> prop_truthy (m_headers m) ''sequence_end'') ms of
           [] \<Rightarrow>
             map_of (requests (deliver_all ms b)) rid =
               Some (r\<lparr>rq_progress := rq_progress r @ ms\<rparr>) \<and>
             trace (deliver_all ms b) = trace b @ map (PromiseNotify rid) ms
         | m # later \<Rightarrow>
             map_of (requests (deliver_all ms b)) rid =
               Some (r\<lparr>rq_promise := Resolved m, rq_subscribed := False,
                       rq_progress := rq_progress r @
                         takeWhile (\<lambda>m. \<not> prop_truthy (m_headers m) ''sequence_end'') ms\<rparr>) \<and>
             trace (deliver_all ms b) =
               trace b @
               map (PromiseNotify rid)
                 (takeWhile (\<lambda>m. \<not> prop_truthy (m_headers m) ''sequence_end'') ms) @
               [PromiseResolve rid m, ResponsesUnsubscribe rid]"
  using assms
proof (induction ms arbitrary: b r)
  case Nil
  then show ?case by simp
next
  case (Cons m ms)
  from Cons.prems(4) have id: "m_correlationId m = rid"
    and rest: "\<forall>m\<in>set ms. m_correlationId m = rid" by simp_all
  show ?case
  proof (cases "prop_truthy (m_headers m) ''sequence_end''")
    case True
    note t = deliver_terminal [OF Cons.prems(1-3) id True]
    have "deliver_all ms (deliver m b) = deliver m b"
      by (rule deliver_all_unsubscribed [OF t(1) _ rest]) simp
    with True t show ?thesis by simp
  next
    case False
    note p = deliver_partial [OF Cons.prems(1-3) id False]
    have ih: "case dropWhile (\<lambda>m. \<not> prop_truthy (m_headers m) ''sequence_end'') ms of
           [] \<Rightarrow>
             map_of (requests (deliver_all ms (deliver m b))) rid =
               Some (r\<lparr>rq_progress := rq_progress r @ m # ms\<rparr>) \<and>
             trace (deliver_all ms (deliver m b)) =
               trace b @ PromiseNotify rid m # map (PromiseNotify rid) ms
         | t # later \<Rightarrow>
             map_of (requests (deliver_all ms (deliver m b))) rid =
               Some (r\<lparr>rq_promise := Resolved t, rq_subscribed := False,
                       rq_progress := rq_progress r @ m #
                         takeWhile (\<lambda>m. \<not> prop_truthy (m_headers m) ''sequence_end'') ms\<rparr>) \<and>
             trace (deliver_all ms (deliver m b)) =
               trace b @ PromiseNotify rid m #
               map (PromiseNotify rid)
                 (takeWhile (\<lambda>m. \<not> prop_truthy (m_headers m) ''sequence_end'') ms) @
               [PromiseResolve rid t, ResponsesUnsubscribe rid]"
    proof -
      define d where "d = dropWhile (\<lambda>m. \<not> prop_truthy (m_headers m) ''sequence_end'') ms"
      from Cons.IH [OF p(1) _ _ rest] Cons.prems(2,3) p(2) show ?thesis
        unfolding d_def [symmetric] by (cases d) simp_all
    qed
    define d where "d = dropWhile (\<lambda>m. \<not> prop_truthy (m_headers m) ''sequence_end'') ms"
    have dm: "dropWhile (\<lambda>m. \<not> prop_truthy (m_headers m) ''sequence_end'') (m # ms) = d"
      using False by (simp add: d_def)
    from False ih show ?thesis
      unfolding dm unfolding d_def [symmetric] by (cases d) simp_all
  qed
qed

lemma requests_publish: "requests (snd (publish ts ex args b)) = requests b"
  by (simp add: publish_def Let_def do_effect_def split: sum.splits prod.splits option.splits)

lemma request_waiting:
  assumes "waiting rid (request rid ts ex obj cn b)"
  shows "map_of (requests (request rid ts ex obj cn b)) rid =
           Some \<lparr>rq_promise = Waiting, rq_subscribed = True, rq_progress = []\<rparr>"
proof -
  let ?b1 = "do_effect (ResponsesSubscribe rid)
     (b\<lparr>requests := AList.update rid
        \<lparr>rq_promise = Waiting, rq_subscribed = True, rq_progress = []\<rparr> (requests b)\<rparr>)"
  let ?args = "WithOptions (AList.update ''connectionName''
        (JStr (or_str cn (or_str (str_prop obj ''connectionName'') ''default'')))
        (AList.update ''messageId'' (JStr rid) obj)) None"
  have e: "map_of (requests (snd (publish ts ex ?args ?b1))) rid =
     Some \<lparr>rq_promise = Waiting, rq_subscribed = True, rq_progress = []\<rparr>"
    by (simp add: requests_publish requests_do_effect update_conv')
  show ?thesis
  proof (cases "fst (publish ts ex ?args ?b1)")
    case (Inl err)
    with e have "\<not> waiting rid (request rid ts ex obj cn b)"
      by (simp add: request_def Let_def case_prod_beta reject_def waiting_def
          entry_on_request)
    with assms show ?thesis by simp
  next
    case (Inr u)
    with e show ?thesis
      by (simp add: request_def Let_def case_prod_beta)
  qed
qed

text \<open>
  Claim C2. Take a request whose publish did not throw, so that its promise is pending, and
  any sequence of inbound replies that carry its correlation identifier. A reply carries the
  marker when its header \<open>sequence_end\<close> is truthy, which is what the code tests. If no reply
  carries the marker, every reply has been passed to \<open>notify\<close>, in order, the promise is
  still pending and the subscription is still there. Otherwise the promise has resolved with
  the first reply that carries the marker, the replies before it have been passed to
  \<open>notify\<close> and nothing else, the subscription was removed right after the resolution, and
  the replies after it have no effect: the promise resolves once.
\<close>

theorem request_resolves_once:
  "waiting rid (request rid ts ex obj cn b) \<and> (\<forall>m\<in>set ms. m_correlationId m = rid) \<longrightarrow>
   (case dropWhile (\<lambda>m. \<not> prop_truthy (m_headers m) ''sequence_end'') ms of
      [] \<Rightarrow>
        map_of (requests (deliver_all ms (request rid ts ex obj cn b))) rid =
          Some \<lparr>rq_promise = Waiting, rq_subscribed = True, rq_progress = ms\<rparr> \<and>
        trace (deliver_all ms (request rid ts ex obj cn b)) =
          trace (request rid ts ex obj cn b) @ map (PromiseNotify rid) ms
    | m # later \<Rightarrow>
        map_of (requests (deliver_all ms (request rid ts ex obj cn b))) rid =
          Some \<lparr>rq_promise = Resolved m, rq_subscribed = False,
                rq_progress =
                  takeWhile (\<lambda>m. \<not> prop_truthy (m_headers m) ''sequence_end'') ms\<rparr> \<and>
        trace (deliver_all ms (request rid ts ex obj cn b)) =
          trace (request rid ts ex obj cn b) @
          map (PromiseNotify rid)
            (takeWhile (\<lambda>m. \<not> prop_truthy (m_headers m) ''sequence_end'') ms) @
          [PromiseResolve rid m, ResponsesUnsubscribe rid])"
proof (intro impI, elim conjE)
  let ?thesis = "case dropWhile (\<lambda>m. \<not> prop_truthy (m_headers m) ''sequence_end'') ms of
      [] \<Rightarrow>
        map_of (requests (deliver_all ms (request rid ts ex obj cn b))) rid =
          Some \<lparr>rq_promise = Waiting, rq_subscribed = True, rq_progress = ms\<rparr> \<and>
        trace (deliver_all ms (request rid ts ex obj cn b)) =
          trace (request rid ts ex obj cn b) @ map (PromiseNotify rid) ms
    | m # later \<Rightarrow>
        map_of (requests (deliver_all ms (request rid ts ex obj cn b))) rid =
          Some \<lparr>rq_promise = Resolved m, rq_subscribed = False,
                rq_progress =
                  takeWhile (\<lambda>m. \<not> prop_truthy (m_headers m) ''sequence_end'') ms\<rparr> \<and>
        trace (deliver_all ms (request rid ts ex obj cn b)) =
          trace (request rid ts ex obj cn b) @
          map (PromiseNotify rid)
            (takeWhile (\<lambda>m. \<not> prop_truthy (m_headers m) ''sequence_end'') ms) @
          [PromiseResolve rid m, ResponsesUnsubscribe rid]"
  assume w: "waiting rid (request rid ts ex obj cn b)"
     and ids: "\<forall>m\<in>set ms. m_correlationId m = rid"
  define d where "d = dropWhile (\<lambda>m. \<not> prop_truthy (m_headers m) ''sequence_end'') ms"
  from deliver_all_replies [OF request_waiting [OF w] _ _ ids]
  show ?thesis
    unfolding d_def [symmetric] by (cases d) simp_all
qed


lemmas request_evals =
  request_def publish_def publish_options_def getExchange_def addExchange_def
  createExchange_def str_prop_def opt_num_def waiting_def deliver_def on_response_def
  resolve_def notify_def unsubscribe_def reject_def on_request_def
  addQueue_def addConnection_def Broker_def Let_def connection_name_def defaulted_def
  no_options_def or_str_def or_num_def do_effect_def topologyFn_def connectionFn_def
  prop_truthy_def createQueue_def on_topology_def register_channel_def channel_name_def
  dict_evals

theorem request_resolves_once_witness:
  "waiting ''r1''
     (request ''r1'' 0 ''ex'' [] None
        (snd (addExchange (ExchangeName ''ex'') (Some ''direct'') (Some []) None
           (snd (addConnection None Broker))))) \<and>
   map_of (requests (deliver_all
     [\<lparr>m_correlationId = ''r1'', m_headers = [], m_body = JNum 1\<rparr>,
      \<lparr>m_correlationId = ''r1'', m_headers = [(''sequence_end'', JBool True)],
        m_body = JNum 2\<rparr>,
      \<lparr>m_correlationId = ''r1'', m_headers = [(''sequence_end'', JBool True)],
        m_body = JNum 3\<rparr>]
     (request ''r1'' 0 ''ex'' [] None
        (snd (addExchange (ExchangeName ''ex'') (Some ''direct'') (Some []) None
           (snd (addConnection None Broker))))))) ''r1'' =
     Some \<lparr>rq_promise = Resolved \<lparr>m_correlationId = ''r1'',
               m_headers = [(''sequence_end'', JBool True)], m_body = JNum 2\<rparr>,
            rq_subscribed = False,
            rq_progress = [\<lparr>m_correlationId = ''r1'', m_headers = [], m_body = JNum 1\<rparr>]\<rparr>"
  using request_resolves_once
    [where rid = "''r1''" and ts = 0 and ex = "''ex''" and obj = "[]" and cn = None
       and b = "snd (addExchange (ExchangeName ''ex'') (Some ''direct'') (Some []) None
                  (snd (addConnection None Broker)))"
       and ms = "[\<lparr>m_correlationId = ''r1'', m_headers = [], m_body = JNum 1\<rparr>,
      \<lparr>m_correlationId = ''r1'', m_headers = [(''sequence_end'', JBool True)],
        m_body = JNum 2\<rparr>,
      \<lparr>m_correlationId = ''r1'', m_headers = [(''sequence_end'', JBool True)],
        m_body = JNum 3\<rparr>]"]
  by (simp add: request_evals)


subsection \<open>Closing every connection\<close>

lemma closes_do_effect:
  "closes (do_effect e b) = closes b @ (case e of ConnClose n r \<Rightarrow> [(n, r)] | _ \<Rightarrow> [])"
  by (cases e) (simp_all add: closes_def do_effect_def)

lemma conn_of_do_effect: "conn_of (do_effect e b) k = conn_of b k"
  by (simp add: conn_of_def do_effect_def)

lemma conn_of_topology_reset: "conn_of (topology_reset key b) k = conn_of b k"
  by (simp add: conn_of_def topology_reset_def on_topology_def do_effect_def
      map_of_map_entry split: option.splits)

lemma closes_topology_reset: "closes (topology_reset key b) = closes b"
  by (simp add: topology_reset_def closes_do_effect)
     (simp add: closes_def on_topology_def)

lemma close_known:
  assumes "conn_of b (or_str n ''default'') = Some c"
  shows "fst (close cc n r b) = Inr (cc (c_name c) r)"
    and "closes (snd (close cc n r b)) = closes b @ [(c_name c, r)]"
    and "conn_of (snd (close cc n r b)) k = conn_of b k"
  using assms
  by (auto simp: close_def Let_def conn_of_def [of b] js_get_def closes_do_effect
      conn_of_do_effect conn_of_topology_reset closes_topology_reset split: option.splits)

lemma close_each_known:
  assumes "\<forall>t\<in>set ts. \<exists>c. conn_of b (or_str (t_name t) ''default'') = Some c \<and>
             t_connection t = Some c"
  shows "fst (close_each cc r ts b) = Inr (map (\<lambda>t. cc (closer_name t) r) ts) \<and>
         closes (snd (close_each cc r ts b)) = closes b @ map (\<lambda>t. (closer_name t, r)) ts"
  using assms
proof (induction ts arbitrary: b)
  case Nil
  then show ?case by simp
next
  case (Cons t ts)
  from Cons.prems obtain c where
    c: "conn_of b (or_str (t_name t) ''default'') = Some c" and tc: "t_connection t = Some c"
    by auto
  obtain res b1 where cl: "close cc (t_name t) r b = (res, b1)"
    by (cases "close cc (t_name t) r b")
  from close_known [OF c, of cc r] cl
  have res: "res = Inr (cc (c_name c) r)"
    and tr: "closes b1 = closes b @ [(c_name c, r)]"
    and same: "\<And>k. conn_of b1 k = conn_of b k"
    by simp_all
  from Cons.prems same
  have "\<forall>t\<in>set ts. \<exists>c. conn_of b1 (or_str (t_name t) ''default'') = Some c \<and>
             t_connection t = Some c"
    by simp
  from Cons.IH [OF this]
  have ih: "fst (close_each cc r ts b1) = Inr (map (\<lambda>t. cc (closer_name t) r) ts)"
    "closes (snd (close_each cc r ts b1)) = closes b1 @ map (\<lambda>t. (closer_name t, r)) ts"
    by simp_all
  obtain res2 b2 where ce: "close_each cc r ts b1 = (res2, b2)"
    by (cases "close_each cc r ts b1")
  from ih ce cl res tr tc show ?case
    by (simp add: closer_name_def)
qed

lemma registered_ok_entry:
  assumes "registered_ok b" "(k, t) \<in> set (connections b)"
  shows "\<exists>c. conn_of b (or_str (t_name t) ''default'') = Some c \<and> t_connection t = Some c"
proof -
  from assms have d: "distinct (map fst (connections b))"
    and p: "k \<noteq> [] \<and> t_name t = Some k \<and> t_connection t \<noteq> None"
    by (auto simp: registered_ok_def list_all_iff)
  from d assms(2) have "map_of (connections b) k = Some t" by simp
  with p show ?thesis
    by (auto simp: conn_of_def or_str_def)
qed

lemma closeAll_known:
  assumes "registered_ok b"
  shows "fst (closeAll cc r b) =
           Inr (when_all (map (\<lambda>t. cc (closer_name t) r) (map snd (connections b))))"
    and "closes (snd (closeAll cc r b)) =
           closes b @ map (\<lambda>t. (closer_name t, r)) (map snd (connections b))"
proof -
  have "\<forall>t\<in>set (map snd (connections b)).
          \<exists>c. conn_of b (or_str (t_name t) ''default'') = Some c \<and> t_connection t = Some c"
    using registered_ok_entry [OF assms] by auto
  from close_each_known [OF this, of cc r]
  show "fst (closeAll cc r b) =
           Inr (when_all (map (\<lambda>t. cc (closer_name t) r) (map snd (connections b))))"
    and "closes (snd (closeAll cc r b)) =
           closes b @ map (\<lambda>t. (closer_name t, r)) (map snd (connections b))"
    by (simp_all add: closeAll_def case_prod_beta split: sum.splits)
qed

lemma rejections_set: "set [e. Rejected e \<leftarrow> ps] = {e. Rejected e \<in> set ps}"
  by (induction ps) (auto split: outcome.splits)

lemma values_all:
  "list_all (\<lambda>p. case p of Fulfilled x \<Rightarrow> True | _ \<Rightarrow> False) ps \<Longrightarrow>
   map Fulfilled [x. Fulfilled x \<leftarrow> ps] = ps"
  by (induction ps) (auto split: outcome.splits)

lemma when_all_Rejected:
  assumes "when_all ps = Rejected e"
  shows "Rejected e \<in> set ps"
proof -
  define rs where "rs = [e. Rejected e \<leftarrow> ps]"
  from assms have "rs \<noteq> [] \<and> e = hd rs"
    unfolding when_all_def rs_def [symmetric] by (cases rs) (auto split: if_splits)
  then have "e \<in> set rs" by simp
  then show ?thesis by (simp add: rs_def rejections_set)
qed

lemma when_all_rejects:
  assumes "Rejected e \<in> set ps"
  shows "\<exists>x. when_all ps = Rejected x"
proof -
  define rs where "rs = [e. Rejected e \<leftarrow> ps]"
  from assms have "e \<in> set rs" by (simp add: rs_def rejections_set)
  then have "rs \<noteq> []" by auto
  then show ?thesis
    unfolding when_all_def rs_def [symmetric] by (cases rs) auto
qed

lemma when_all_fulfils:
  assumes "list_all (\<lambda>p. case p of Fulfilled x \<Rightarrow> True | _ \<Rightarrow> False) ps"
  shows "when_all ps = Fulfilled (JArr [x. Fulfilled x \<leftarrow> ps])"
proof -
  define rs where "rs = [e. Rejected e \<leftarrow> ps]"
  from assms have "\<forall>e. Rejected e \<notin> set ps" and p: "Pending \<notin> set ps"
    by (auto simp: list_all_iff split: outcome.splits)
  then have "set rs = {}" unfolding rs_def rejections_set by blast
  then have "rs = []" by simp
  with p show ?thesis
    unfolding when_all_def rs_def [symmetric] by simp
qed


theorem closeAll_short_circuits:
  "fst (closeAll (\<lambda>n r. if n = ''a'' then Rejected ''boom'' else Fulfilled (JNum 1)) False
     (snd (addConnection (Some (no_options\<lparr>o_name := Some ''b''\<rparr>))
        (snd (addConnection (Some (no_options\<lparr>o_name := Some ''a''\<rparr>)) Broker))))) =
     Inr (Rejected ''boom'') \<and>
   fst (closeAll (\<lambda>n r. if n = ''a'' then Rejected ''boom'' else Fulfilled (JNum 2)) False
     (snd (addConnection (Some (no_options\<lparr>o_name := Some ''b''\<rparr>))
        (snd (addConnection (Some (no_options\<lparr>o_name := Some ''a''\<rparr>)) Broker))))) =
     Inr (Rejected ''boom'') \<and>
   closes (snd (closeAll (\<lambda>n r. if n = ''a'' then Rejected ''boom'' else Fulfilled (JNum 1))
     False
     (snd (addConnection (Some (no_options\<lparr>o_name := Some ''b''\<rparr>))
        (snd (addConnection (Some (no_options\<lparr>o_name := Some ''a''\<rparr>)) Broker)))))) =
     [(''a'', False), (''b'', False)]"
  by (simp add: closeAll_def close_def when_all_def closes_def addConnection_def Broker_def
      Let_def connection_name_def defaulted_def no_options_def or_str_def or_num_def
      do_effect_def topologyFn_def connectionFn_def dict_evals)

text \<open>
  Claim C5, amended. On a registry as \<open>addConnection\<close> builds it, \<open>closeAll(reset)\<close>
  calls \<open>close\<close> on the connection of every registered entry, in the order of the
  registry and before its own result is formed, and its result is \<open>when.all\<close> of the
  promises of those calls. When every one of them fulfils, the result fulfils with the
  array of all their values. When one of them rejects, the result rejects with the reason of
  a call that rejected; every \<open>close\<close> has been initiated all the same.
\<close>

theorem closeAll_aggregate:
  "registered_ok b \<longrightarrow>
     fst (closeAll cc r b) =
       Inr (when_all (map (\<lambda>t. cc (closer_name t) r) (map snd (connections b)))) \<and>
     closes (snd (closeAll cc r b)) =
       closes b @ map (\<lambda>t. (closer_name t, r)) (map snd (connections b)) \<and>
     (list_all (\<lambda>p. case p of Fulfilled x \<Rightarrow> True | _ \<Rightarrow> False)
        (map (\<lambda>t. cc (closer_name t) r) (map snd (connections b))) \<longrightarrow>
      fst (closeAll cc r b) =
        Inr (Fulfilled (JArr [x. Fulfilled x \<leftarrow>
               map (\<lambda>t. cc (closer_name t) r) (map snd (connections b))]))) \<and>
     (Rejected e \<in> set (map (\<lambda>t. cc (closer_name t) r) (map snd (connections b))) \<longrightarrow>
      (\<exists>x. fst (closeAll cc r b) = Inr (Rejected x) \<and>
           Rejected x \<in> set (map (\<lambda>t. cc (closer_name t) r) (map snd (connections b)))))"
proof
  assume ok: "registered_ok b"
  let ?ps = "map (\<lambda>t. cc (closer_name t) r) (map snd (connections b))"
  note k = closeAll_known [OF ok, of cc r]
  have f: "list_all (\<lambda>p. case p of Fulfilled x \<Rightarrow> True | _ \<Rightarrow> False) ?ps \<longrightarrow>
      fst (closeAll cc r b) = Inr (Fulfilled (JArr [x. Fulfilled x \<leftarrow> ?ps]))"
    using k(1) when_all_fulfils [of ?ps] by simp
  have j: "Rejected e \<in> set ?ps \<longrightarrow>
      (\<exists>x. fst (closeAll cc r b) = Inr (Rejected x) \<and> Rejected x \<in> set ?ps)"
  proof
    assume "Rejected e \<in> set ?ps"
    from when_all_rejects [OF this] obtain x where x: "when_all ?ps = Rejected x" ..
    from when_all_Rejected [OF x] x k(1)
    show "\<exists>x. fst (closeAll cc r b) = Inr (Rejected x) \<and> Rejected x \<in> set ?ps"
      by auto
  qed
  from k f j show
    "fst (closeAll cc r b) = Inr (when_all ?ps) \<and>
     closes (snd (closeAll cc r b)) =
       closes b @ map (\<lambda>t. (closer_name t, r)) (map snd (connections b)) \<and>
     (list_all (\<lambda>p. case p of Fulfilled x \<Rightarrow> True | _ \<Rightarrow> False) ?ps \<longrightarrow>
      fst (closeAll cc r b) = Inr (Fulfilled (JArr [x. Fulfilled x \<leftarrow> ?ps]))) \<and>
     (Rejected e \<in> set ?ps \<longrightarrow>
      (\<exists>x. fst (closeAll cc r b) = Inr (Rejected x) \<and> Rejected x \<in> set ?ps))"
    by blast
qed

lemmas close_evals =
  registered_ok_def closer_name_def closeAll_def close_def when_all_def closes_def
  addConnection_def Broker_def Let_def connection_name_def defaulted_def no_options_def
  or_str_def or_num_def do_effect_def topologyFn_def connectionFn_def
  topology_reset_def on_topology_def dict_evals

theorem closeAll_aggregate_witness:
  "registered_ok
     (snd (addConnection (Some (no_options\<lparr>o_name := Some ''b''\<rparr>))
        (snd (addConnection (Some (no_options\<lparr>o_name := Some ''a''\<rparr>)) Broker)))) \<and>
   fst (closeAll (\<lambda>n r. if n = ''a'' then Fulfilled (JNum 1) else Fulfilled (JNum 2)) True
     (snd (addConnection (Some (no_options\<lparr>o_name := Some ''b''\<rparr>))
        (snd (addConnection (Some (no_options\<lparr>o_name := Some ''a''\<rparr>)) Broker))))) =
     Inr (Fulfilled (JArr [JNum 1, JNum 2])) \<and>
   closes (snd (closeAll (\<lambda>n r. if n = ''a'' then Fulfilled (JNum 1) else Fulfilled (JNum 2))
     True
     (snd (addConnection (Some (no_options\<lparr>o_name := Some ''b''\<rparr>))
        (snd (addConnection (Some (no_options\<lparr>o_name := Some ''a''\<rparr>)) Broker)))))) =
     [(''a'', True), (''b'', True)] \<and>
   Rejected ''boom'' \<in> set (map (\<lambda>t. (\<lambda>n r. if n = ''a'' then Rejected ''boom''
                                           else Fulfilled (JNum 2)) (closer_name t) False)
     (map snd (connections
       (snd (addConnection (Some (no_options\<lparr>o_name := Some ''b''\<rparr>))
          (snd (addConnection (Some (no_options\<lparr>o_name := Some ''a''\<rparr>)) Broker))))))) \<and>
   fst (closeAll (\<lambda>n r. if n = ''a'' then Rejected ''boom'' else Fulfilled (JNum 2)) False
     (snd (addConnection (Some (no_options\<lparr>o_name := Some ''b''\<rparr>))
        (snd (addConnection (Some (no_options\<lparr>o_name := Some ''a''\<rparr>)) Broker))))) =
     Inr (Rejected ''boom'')"
  using closeAll_aggregate
    [where b = "snd (addConnection (Some (no_options\<lparr>o_name := Some ''b''\<rparr>))
        (snd (addConnection (Some (no_options\<lparr>o_name := Some ''a''\<rparr>)) Broker)))"
       and cc = "\<lambda>n r. if n = ''a'' then Fulfilled (JNum 1) else Fulfilled (JNum 2)"
       and r = True]
    closeAll_aggregate
    [where b = "snd (addConnection (Some (no_options\<lparr>o_name := Some ''b''\<rparr>))
        (snd (addConnection (Some (no_options\<lparr>o_name := Some ''a''\<rparr>)) Broker)))"
       and cc = "\<lambda>n r. if n = ''a'' then Rejected ''boom'' else Fulfilled (JNum 2)"
       and r = False and e = "''boom''"]
  by (simp add: close_evals)


subsection \<open>The registry in every reachable state\<close>

text \<open>
  The condition on the registry under which \<open>closeAll\<close> was described holds in a new
  broker and is kept by every operation and event, so it holds in every state a broker
  reaches.
\<close>

lemma registered_ok_connections:
  "connections b' = connections b \<Longrightarrow> registered_ok b' = registered_ok b"
  by (simp add: registered_ok_def)

lemma registered_ok_do_effect [simp]: "registered_ok (do_effect e b) = registered_ok b"
  by (simp add: registered_ok_def do_effect_def)

lemma map_entry_keeps:
  assumes "\<And>t. t_name (f t) = t_name t" "\<And>t. t_connection (f t) = t_connection t"
  shows "map fst (AList.map_entry k f al) = map fst al"
    and "list_all (\<lambda>(k, t). k \<noteq> [] \<and> t_name t = Some k \<and> t_connection t \<noteq> None)
           (AList.map_entry k f al) =
         list_all (\<lambda>(k, t). k \<noteq> [] \<and> t_name t = Some k \<and> t_connection t \<noteq> None) al"
  using assms by (induction al) auto

lemma registered_ok_on_topology:
  assumes "\<And>t. t_name (f t) = t_name t" "\<And>t. t_connection (f t) = t_connection t"
  shows "registered_ok (on_topology k f b) = registered_ok b"
  using map_entry_keeps [of f k "connections b", OF assms]
  by (simp add: registered_ok_def on_topology_def)

lemma registered_ok_topology [simp]:
  "registered_ok (createExchange k obj b) = registered_ok b"
  "registered_ok (createQueue k obj b) = registered_ok b"
  "registered_ok (createBinding k s t ks q b) = registered_ok b"
  "registered_ok (topology_deleteExchange k n b) = registered_ok b"
  "registered_ok (topology_deleteQueue k n b) = registered_ok b"
  "registered_ok (topology_reset k b) = registered_ok b"
  by (simp_all add: createExchange_def createQueue_def createBinding_def
      topology_deleteExchange_def topology_deleteQueue_def topology_reset_def Let_def
      registered_ok_on_topology register_channel_def)

lemma connection_name_not_empty: "connection_name options \<noteq> []"
  by (simp add: connection_name_def or_str_def split: option.splits)

lemma registered_ok_addConnection [simp]:
  assumes "registered_ok b"
  shows "registered_ok (snd (addConnection options b))"
proof (cases "js_get (connections b) (connection_name options)")
  case Missing
  let ?k = "connection_name options"
  let ?t = "topologyFn (connectionFn (defaulted options)) (defaulted options)"
  from Missing have none: "map_of (connections b) ?k = None"
    and p: "?k \<noteq> ''__proto__''"
    by (simp_all add: js_get_Missing not_member_not_proto)
  have n: "o_name (defaulted options) = Some ?k"
    by (simp add: defaulted_def Let_def)
  have c: "connections (snd (addConnection options b)) = js_set ?k ?t (connections b)"
    using Missing by (simp add: addConnection_def Let_def connections_do_effect)
  have s: "set (js_set ?k ?t (connections b)) = insert (?k, ?t) (set (connections b))"
    using none p by (simp add: js_set_def set_set_property_new)
  have d: "distinct (map fst (js_set ?k ?t (connections b))) =
     distinct (map fst (connections b))"
    using p by (simp add: js_set_def distinct_set_property)
  from assms n show ?thesis
    unfolding registered_ok_def c d list_all_iff s
    by (auto simp: topologyFn_def connection_name_not_empty)
next
  case (Own t)
  with assms show ?thesis
    by (simp add: addConnection_def Let_def split: option.splits)
next
  case Inherited
  with assms show ?thesis
    by (simp add: addConnection_def Let_def)
qed

lemma registered_ok_declare [simp]:
  "registered_ok (snd (addExchange n ty obj cn b)) = registered_ok b"
  "registered_ok (snd (addQueue q obj cn b)) = registered_ok b"
  "registered_ok (snd (bindExchange s t ks cn b)) = registered_ok b"
  "registered_ok (snd (bindQueue s t ks cn b)) = registered_ok b"
  "registered_ok (snd (deleteExchange q cn b)) = registered_ok b"
  "registered_ok (snd (deleteQueue q cn b)) = registered_ok b"
  by (simp_all add: addExchange_def addQueue_def bindExchange_def bindQueue_def
      deleteExchange_def deleteQueue_def Let_def connections_do_effect
      split: option.splits exchange_arg.splits)

lemma registered_ok_close [simp]:
  "registered_ok (snd (close cc cn r b)) = registered_ok b"
  by (simp add: close_def Let_def split: option.splits property.splits)

lemma registered_ok_close_each [simp]:
  "registered_ok (snd (close_each cc r ts b)) = registered_ok b"
proof (induction ts arbitrary: b)
  case Nil
  show ?case by simp
next
  case (Cons t ts)
  obtain res b1 where c: "close cc (t_name t) r b = (res, b1)"
    by (cases "close cc (t_name t) r b")
  from registered_ok_close [of cc "t_name t" r b] c
  have f: "registered_ok b1 = registered_ok b" by simp
  obtain res2 b2 where d: "close_each cc r ts b1 = (res2, b2)"
    by (cases "close_each cc r ts b1")
  from Cons.IH [of b1] d f have "registered_ok b2 = registered_ok b" by simp
  with c d f show ?case
    by (cases res; cases res2) simp_all
qed

lemma registered_ok_timer [simp]:
  "registered_ok (clearAckInterval b) = registered_ok b"
  "registered_ok (setAckInterval i b) = registered_ok b"
  "registered_ok (batchAck b) = registered_ok b"
  "registered_ok (emit ev p b) = registered_ok b"
  by (simp_all add: clearAckInterval_def setAckInterval_def batchAck_def emit_def Let_def
      registered_ok_def do_effect_def)

lemma registered_ok_closeAll [simp]:
  "registered_ok (snd (closeAll cc r b)) = registered_ok b"
  "registered_ok (snd (shutdown cc b)) = registered_ok b"
  by (simp_all add: closeAll_def shutdown_def case_prod_beta split: sum.splits outcome.splits)

lemma registered_ok_policy [simp]:
  "registered_ok (addSerializer ct c b) = registered_ok b"
  "registered_ok (ignoreHandlerErrors b) = registered_ok b"
  "registered_ok (nackOnError b) = registered_ok b"
  "registered_ok (nackUnhandled b) = registered_ok b"
  "registered_ok (onUnhandled h b) = registered_ok b"
  "registered_ok (rejectUnhandled b) = registered_ok b"
  "registered_ok (remove i b) = registered_ok b"
  "registered_ok (snd (handle mt qn b)) = registered_ok b"
  "registered_ok (snd (publish ts ex args b)) = registered_ok b"
  "registered_ok (snd (startSubscription q x cn b)) = registered_ok b"
  by (simp_all add: addSerializer_def ignoreHandlerErrors_def nackOnError_def
      nackUnhandled_def onUnhandled_def rejectUnhandled_def remove_def handle_def
      publish_def startSubscription_def Let_def registered_ok_def do_effect_def
      split: sum.splits prod.splits option.splits)

lemma registered_ok_on_request [simp]:
  "registered_ok (on_request k f b) = registered_ok b"
  by (simp add: on_request_def registered_ok_def)

lemma registered_ok_replies [simp]:
  "registered_ok (resolve i m b) = registered_ok b"
  "registered_ok (reject i e b) = registered_ok b"
  "registered_ok (notify i m b) = registered_ok b"
  "registered_ok (unsubscribe i b) = registered_ok b"
  "registered_ok (deliver m b) = registered_ok b"
  by (simp_all add: resolve_def reject_def notify_def unsubscribe_def deliver_def
      on_response_def split: option.splits)

lemma registered_ok_request [simp]:
  "registered_ok (request i ts ex obj cn b) = registered_ok b"
proof -
  have h: "registered_ok (b\<lparr>requests := x\<rparr>) = registered_ok b" for x
    by (simp add: registered_ok_def)
  show ?thesis
    by (simp add: request_def Let_def case_prod_beta h split: sum.splits)
qed

lemma registered_ok_reset [simp]: "registered_ok (reset b)"
  by (simp add: reset_def registered_ok_def)

lemma registered_ok_configure [simp]:
  assumes "registered_ok b"
  shows "registered_ok (snd (configure c b))" "registered_ok (snd (retry cn b))"
proof -
  have h: "registered_ok (b\<lparr>configurations := x\<rparr>)" for x
    using assms by (simp add: registered_ok_def)
  show c: "registered_ok (snd (configure c b))" for c
    using registered_ok_addConnection [OF h]
    by (simp add: configure_def Let_def case_prod_beta assms split: option.splits sum.splits)
  show "registered_ok (snd (retry cn b))"
    by (simp add: retry_def Let_def c)
qed

lemma registered_ok_events [simp]:
  "registered_ok (on_connected n c b) = registered_ok b"
  "registered_ok (on_closed n c b) = registered_ok b"
  "registered_ok (on_failed n c e b) = registered_ok b"
  "registered_ok (on_unreachable n c b) = registered_ok b"
  by (simp_all add: on_connected_def on_closed_def on_failed_def on_unreachable_def)

lemma registered_ok_step: "registered_ok b \<Longrightarrow> registered_ok (step cc x b)"
  by (cases x) simp_all

lemma registered_ok_run: "registered_ok b \<Longrightarrow> registered_ok (run cc xs b)"
  by (induction xs arbitrary: b) (simp_all add: registered_ok_step)

lemma registered_ok_reachable: "registered_ok (run cc xs Broker)"
  by (rule registered_ok_run) (simp add: registered_ok_def Broker_def)


end
